theory Spec2Isabelle
  imports Complex_Main
begin

section \<open>Numeric values\<close>

text \<open>
  The program computes with numpy float64 values.  Finite values are modelled by the
  reals: arithmetic on them is exact, rounding and overflow are abstracted away.  The
  special values of IEEE 754 are kept, because the program produces them (division by a
  zero norm) and tests for them (\<open>np.isnan\<close>, \<open>np.isinf\<close>): \<open>fl\<close> adds
  \<open>PosInf\<close>, \<open>NegInf\<close> and \<open>NaN\<close> to the reals, with the arithmetic and the
  comparisons IEEE 754 gives them (a comparison with \<open>NaN\<close> is false).  Signed zeros
  are not distinguished.

  Timestamps (\<open>to_sec()\<close> of a ROS time) and the data held by the pose graph are
  finite and are typed \<open>real\<close>.
\<close>

datatype fl = Flt real | PosInf | NegInf | NaN

instantiation fl :: "{zero, one, plus, minus, uminus, times, divide, abs, ord}"
begin

definition zero_fl :: fl where
  "zero_fl = Flt 0"

definition one_fl :: fl where
  "one_fl = Flt 1"

fun plus_fl :: "fl \<Rightarrow> fl \<Rightarrow> fl" where
  "plus_fl (Flt a) (Flt b) = Flt (a + b)"
| "plus_fl NaN _ = NaN"
| "plus_fl _ NaN = NaN"
| "plus_fl PosInf NegInf = NaN"
| "plus_fl NegInf PosInf = NaN"
| "plus_fl PosInf _ = PosInf"
| "plus_fl _ PosInf = PosInf"
| "plus_fl NegInf _ = NegInf"
| "plus_fl _ NegInf = NegInf"

fun uminus_fl :: "fl \<Rightarrow> fl" where
  "uminus_fl (Flt a) = Flt (- a)"
| "uminus_fl PosInf = NegInf"
| "uminus_fl NegInf = PosInf"
| "uminus_fl NaN = NaN"

definition minus_fl :: "fl \<Rightarrow> fl \<Rightarrow> fl" where
  "minus_fl (a::fl) b = a + (- b)"

fun times_fl :: "fl \<Rightarrow> fl \<Rightarrow> fl" where
  "times_fl (Flt a) (Flt b) = Flt (a * b)"
| "times_fl NaN _ = NaN"
| "times_fl _ NaN = NaN"
| "times_fl PosInf (Flt b) = (if b = 0 then NaN else if 0 < b then PosInf else NegInf)"
| "times_fl NegInf (Flt b) = (if b = 0 then NaN else if 0 < b then NegInf else PosInf)"
| "times_fl (Flt a) PosInf = (if a = 0 then NaN else if 0 < a then PosInf else NegInf)"
| "times_fl (Flt a) NegInf = (if a = 0 then NaN else if 0 < a then NegInf else PosInf)"
| "times_fl PosInf PosInf = PosInf"
| "times_fl NegInf NegInf = PosInf"
| "times_fl PosInf NegInf = NegInf"
| "times_fl NegInf PosInf = NegInf"

fun divide_fl :: "fl \<Rightarrow> fl \<Rightarrow> fl" where
  "divide_fl (Flt a) (Flt b) =
     (if b \<noteq> 0 then Flt (a / b)
      else if a = 0 then NaN else if 0 < a then PosInf else NegInf)"
| "divide_fl NaN _ = NaN"
| "divide_fl _ NaN = NaN"
| "divide_fl (Flt a) PosInf = Flt 0"
| "divide_fl (Flt a) NegInf = Flt 0"
| "divide_fl PosInf (Flt b) = (if 0 \<le> b then PosInf else NegInf)"
| "divide_fl NegInf (Flt b) = (if 0 \<le> b then NegInf else PosInf)"
| "divide_fl PosInf PosInf = NaN"
| "divide_fl PosInf NegInf = NaN"
| "divide_fl NegInf PosInf = NaN"
| "divide_fl NegInf NegInf = NaN"

fun abs_fl :: "fl \<Rightarrow> fl" where
  "abs_fl (Flt a) = Flt \<bar>a\<bar>"
| "abs_fl PosInf = PosInf"
| "abs_fl NegInf = PosInf"
| "abs_fl NaN = NaN"

fun less_fl :: "fl \<Rightarrow> fl \<Rightarrow> bool" where
  "less_fl (Flt a) (Flt b) = (a < b)"
| "less_fl NaN _ = False"
| "less_fl _ NaN = False"
| "less_fl PosInf _ = False"
| "less_fl NegInf NegInf = False"
| "less_fl NegInf _ = True"
| "less_fl (Flt a) PosInf = True"
| "less_fl (Flt a) NegInf = False"

fun less_eq_fl :: "fl \<Rightarrow> fl \<Rightarrow> bool" where
  "less_eq_fl (Flt a) (Flt b) = (a \<le> b)"
| "less_eq_fl NaN _ = False"
| "less_eq_fl _ NaN = False"
| "less_eq_fl NegInf _ = True"
| "less_eq_fl PosInf PosInf = True"
| "less_eq_fl PosInf _ = False"
| "less_eq_fl (Flt a) PosInf = True"
| "less_eq_fl (Flt a) NegInf = False"

instance ..

end

instantiation fl :: inverse
begin

definition inverse_fl :: "fl \<Rightarrow> fl" where
  "inverse_fl a = divide (Flt 1) a"

instance ..

end

instance fl :: power ..

instance fl :: monoid_add
proof
  fix a b c :: fl
  show "a + b + c = a + (b + c)"
    by (cases a; cases b; cases c) simp_all
  show "0 + a = a"
    by (cases a) (simp_all add: zero_fl_def)
  show "a + 0 = a"
    by (cases a) (simp_all add: zero_fl_def)
qed

instance fl :: numeral ..

text \<open>\<open>np.sqrt\<close>, \<open>np.sin\<close>, \<open>np.cos\<close> and \<open>np.arccos\<close> on float64: outside their
  domain they return \<open>NaN\<close> (with a warning the program silences).\<close>

fun fl_sqrt :: "fl \<Rightarrow> fl" where
  "fl_sqrt (Flt a) = (if a < 0 then NaN else Flt (sqrt a))"
| "fl_sqrt PosInf = PosInf"
| "fl_sqrt NegInf = NaN"
| "fl_sqrt NaN = NaN"

fun fl_sin :: "fl \<Rightarrow> fl" where
  "fl_sin (Flt a) = Flt (sin a)"
| "fl_sin _ = NaN"

fun fl_cos :: "fl \<Rightarrow> fl" where
  "fl_cos (Flt a) = Flt (cos a)"
| "fl_cos _ = NaN"

fun fl_arccos :: "fl \<Rightarrow> fl" where
  "fl_arccos (Flt a) = (if \<bar>a\<bar> \<le> 1 then Flt (arccos a) else NaN)"
| "fl_arccos _ = NaN"

fun is_nan :: "fl \<Rightarrow> bool" where
  "is_nan NaN = True"
| "is_nan _ = False"

fun is_inf :: "fl \<Rightarrow> bool" where
  "is_inf PosInf = True"
| "is_inf NegInf = True"
| "is_inf _ = False"

text \<open>The exceptions of the Python program that the model keeps as values.\<close>

datatype py_error = ValueError | IndexError | TypeError | LinAlgError | UnboundLocalError

section \<open>The pose graph (class SimpleSLAM)\<close>

type_synonym vec3 = "real \<times> real \<times> real"
type_synonym quat = "real \<times> real \<times> real \<times> real"

text \<open>A pose is the tuple \<open>(timestamp, position, quaternion)\<close>; the quaternion is
  \<open>(x, y, z, w)\<close>.\<close>

type_synonym pose = "real \<times> vec3 \<times> quat"

fun pose_time :: "pose \<Rightarrow> real" where
  "pose_time (t, p, q) = t"

fun pose_position :: "pose \<Rightarrow> vec3" where
  "pose_position (t, p, q) = p"

fun pose_quaternion :: "pose \<Rightarrow> quat" where
  "pose_quaternion (t, p, q) = q"

fun vec3_list :: "vec3 \<Rightarrow> real list" where
  "vec3_list (x, y, z) = [x, y, z]"

fun quat_list :: "quat \<Rightarrow> real list" where
  "quat_list (x, y, z, w) = [x, y, z, w]"

record SimpleSLAM =
  loop_closure_distance :: real
  min_time_gap :: real
  poses :: "pose list"
  odometry_edges :: "(nat \<times> nat) list"
  loop_closure_edges :: "(nat \<times> nat \<times> real) list"

text \<open>\<open>SimpleSLAM.__init__(self, loop_closure_distance=2.0, min_time_gap=10.0)\<close>: an
  argument that is left out is \<open>None\<close> here and takes the default of the signature.\<close>

definition SimpleSLAM_init :: "real option \<Rightarrow> real option \<Rightarrow> SimpleSLAM" where
  "SimpleSLAM_init lcd mtg =
     \<lparr> loop_closure_distance = (case lcd of None \<Rightarrow> 2.0 | Some d \<Rightarrow> d),
       min_time_gap = (case mtg of None \<Rightarrow> 10.0 | Some g \<Rightarrow> g),
       poses = [],
       odometry_edges = [],
       loop_closure_edges = [] \<rparr>"

text \<open>\<open>add_pose\<close> returns the new pose id and the updated graph.\<close>

definition add_pose :: "SimpleSLAM \<Rightarrow> real \<Rightarrow> vec3 \<Rightarrow> quat \<Rightarrow> nat \<times> SimpleSLAM" where
  "add_pose s ts p q =
     (let pose_id = length (poses s);
          s1 = s\<lparr>poses := poses s @ [(ts, p, q)]\<rparr>;
          s2 = (if pose_id > 0
                then s1\<lparr>odometry_edges := odometry_edges s1 @ [(pose_id - 1, pose_id)]\<rparr>
                else s1)
      in (pose_id, s2))"

subsection \<open>Point-cloud similarity\<close>

type_synonym cloud = "vec3 list"

definition mean_list :: "real list \<Rightarrow> real" where
  "mean_list xs = sum_list xs / real (length xs)"

text \<open>\<open>np.std\<close>: the population standard deviation.\<close>

definition std_list :: "real list \<Rightarrow> real" where
  "std_list xs = sqrt (mean_list (map (\<lambda>x. \<bar>x - mean_list xs\<bar> ^ 2) xs))"

definition calculate_geometric_features :: "cloud \<Rightarrow> real list" where
  "calculate_geometric_features pc =
     (if length pc = 0 then replicate 6 0
      else (let xs = map fst pc; ys = map (fst \<circ> snd) pc; zs = map (snd \<circ> snd) pc
            in [mean_list xs, mean_list ys, mean_list zs,
                std_list xs, std_list ys, std_list zs]))"

text \<open>
  \<open>_calculate_point_cloud_similarity(pc1, pc2, max_points)\<close>.  A cloud is \<open>None\<close> or
  an N x 3 array.  The two calls of \<open>np.random.choice(len(pc), max_points,
  replace=False)\<close> are random; their outcomes are the arguments \<open>idx1\<close> and \<open>idx2\<close>
  (lists of row indices below \<open>len(pc)\<close>), used only when a cloud has more than
  \<open>max_points\<close> rows.  On arrays of this shape nothing in the \<open>try\<close> block raises.
\<close>

definition calculate_point_cloud_similarity ::
  "nat list \<Rightarrow> nat list \<Rightarrow> cloud option \<Rightarrow> cloud option \<Rightarrow> nat \<Rightarrow> real" where
  "calculate_point_cloud_similarity idx1 idx2 pc1 pc2 max_points =
     (case (pc1, pc2) of
        (Some c1, Some c2) \<Rightarrow>
          if length c1 = 0 \<or> length c2 = 0 then 0.0
          else
            (let d1 = (if length c1 > max_points then map (\<lambda>k. c1 ! k) idx1 else c1);
                 d2 = (if length c2 > max_points then map (\<lambda>k. c2 ! k) idx2 else c2);
                 stats1 = calculate_geometric_features d1;
                 stats2 = calculate_geometric_features d2;
                 feature_diff =
                   map2 (\<lambda>a b. \<bar>a - b\<bar> / (\<bar>a\<bar> + \<bar>b\<bar> + 0.000001)) stats1 stats2
             in exp (- mean_list feature_diff))
      | _ \<Rightarrow> 0.0)"

subsection \<open>Loop-closure detection\<close>

definition vdist :: "vec3 \<Rightarrow> vec3 \<Rightarrow> real" where
  "vdist a b =
     (case (a, b) of ((ax, ay, az), (bx, by, bz)) \<Rightarrow>
        sqrt ((ax - bx) ^ 2 + (ay - by) ^ 2 + (az - bz) ^ 2))"

text \<open>
  \<open>KDTree(positions).query_ball_point(x, r)\<close> of scipy: the indices of the points whose
  Euclidean distance to \<open>x\<close> is at most \<open>r\<close>.  The library leaves the order of the
  indices open; the model lists them in increasing order.
\<close>

definition query_ball_point :: "vec3 list \<Rightarrow> vec3 \<Rightarrow> real \<Rightarrow> nat list" where
  "query_ball_point positions x r =
     filter (\<lambda>j. vdist (positions ! j) x \<le> r) [0..<length positions]"

text \<open>
  The body of the inner loop of \<open>detect_loop_closures\<close> for the pair \<open>(i, j)\<close>: the
  edges it appends.  \<open>draws i j\<close> are the random index draws of the similarity call made
  for this pair.  In \<open>max(0, 1.0 - distance / self.loop_closure_distance)\<close> a zero
  radius divides by zero: the quotient is \<open>NaN\<close> or \<open>inf\<close>, and Python's \<open>max(0, x)\<close>
  keeps \<open>0\<close> unless \<open>x > 0\<close>, so the confidence is \<open>0\<close> there.
\<close>

definition loop_closure_candidate ::
  "SimpleSLAM \<Rightarrow> cloud option list option \<Rightarrow> (nat \<Rightarrow> nat \<Rightarrow> nat list \<times> nat list)
     \<Rightarrow> nat \<Rightarrow> nat \<Rightarrow> (nat \<times> nat \<times> real) list" where
  "loop_closure_candidate s point_clouds draws i j =
     (let current_time = pose_time (poses s ! i);
          current_pos = pose_position (poses s ! i)
      in if j \<le> i then []
         else
           (let time_gap = \<bar>current_time - pose_time (poses s ! j)\<bar>
            in if time_gap < min_time_gap s then []
               else
                 (let distance = vdist current_pos (pose_position (poses s ! j));
                      confidence0 =
                        (if loop_closure_distance s = 0 then 0
                         else max 0 (1.0 - distance / loop_closure_distance s));
                      confidence =
                        (case point_clouds of
                           None \<Rightarrow> confidence0
                         | Some pcs \<Rightarrow>
                             if i < length pcs \<and> j < length pcs
                             then confidence0 *
                               calculate_point_cloud_similarity
                                 (fst (draws i j)) (snd (draws i j)) (pcs ! i) (pcs ! j) 1000
                             else confidence0)
                  in if confidence > 0.3 then [(i, j, confidence)] else [])))"

text \<open>\<open>detect_loop_closures\<close> returns the edges and the graph with
  \<open>self.loop_closure_edges\<close> set to them (left as it was below three poses).\<close>

definition detect_loop_closures ::
  "SimpleSLAM \<Rightarrow> cloud option list option \<Rightarrow> (nat \<Rightarrow> nat \<Rightarrow> nat list \<times> nat list)
     \<Rightarrow> (nat \<times> nat \<times> real) list \<times> SimpleSLAM" where
  "detect_loop_closures s point_clouds draws =
     (let num_poses = length (poses s)
      in if num_poses < 3 then ([], s)
         else
           (let positions = map pose_position (poses s);
                loop_closures =
                  concat (map (\<lambda>i.
                    concat (map (\<lambda>j. loop_closure_candidate s point_clouds draws i j)
                      (query_ball_point positions (pose_position (poses s ! i))
                         (loop_closure_distance s))))
                    [0..<num_poses])
            in (loop_closures, s\<lparr>loop_closure_edges := loop_closures\<rparr>)))"

text \<open>
  The first lines of \<open>apply_slam_optimization\<close>: the graph it builds from the odometry
  samples, \<open>SimpleSLAM(loop_closure_distance=3.0, min_time_gap=15.0)\<close> followed by one
  \<open>add_pose\<close> per sample.
\<close>

definition build_pose_graph :: "pose list \<Rightarrow> SimpleSLAM" where
  "build_pose_graph odom =
     fold (\<lambda>sample s. snd (add_pose s (pose_time sample) (pose_position sample)
                               (pose_quaternion sample)))
       odom (SimpleSLAM_init (Some 3.0) (Some 15.0))"

subsection \<open>Pose-graph optimisation\<close>

text \<open>The Python slice \<open>xs[i:j]\<close> (for \<open>0 \<le> i \<le> j\<close>): it is cut short, not an error, when
  the list ends before \<open>j\<close>.\<close>

definition slice :: "'a list \<Rightarrow> nat \<Rightarrow> nat \<Rightarrow> 'a list" where
  "slice xs i j = take (j - i) (drop i xs)"

text \<open>Subtraction of two one-dimensional numpy arrays, with broadcasting of a
  one-element array; other length mismatches raise \<open>ValueError\<close>.\<close>

definition np_sub :: "real list \<Rightarrow> real list \<Rightarrow> py_error + real list" where
  "np_sub a b =
     (if length a = length b then Inr (map2 (-) a b)
      else if length a = 1 then Inr (map (\<lambda>y. hd a - y) b)
      else if length b = 1 then Inr (map (\<lambda>x. x - hd b) a)
      else Inl ValueError)"

text \<open>The list \<open>poses\<close> that \<open>_pose_graph_residuals\<close> extracts from the flat parameter
  vector: for each pose the slices \<open>(position, quaternion)\<close>.\<close>

definition params_poses :: "nat \<Rightarrow> real list \<Rightarrow> (real list \<times> real list) list" where
  "params_poses n params =
     map (\<lambda>i. let start_idx = i * 7
               in (slice params start_idx (start_idx + 3),
                   slice params (start_idx + 3) (start_idx + 7)))
       [0..<n]"

text \<open>The residual entries one odometry edge contributes: \<open>orig\<close> is \<open>self.poses\<close>,
  \<open>ps\<close> the candidate poses.\<close>

definition odometry_edge_residual ::
  "pose list \<Rightarrow> (real list \<times> real list) list \<Rightarrow> nat \<Rightarrow> nat \<Rightarrow> py_error + real list" where
  "odometry_edge_residual orig ps i j =
     (if i < length ps \<and> j < length ps then
        (case np_sub (fst (ps ! j)) (fst (ps ! i)) of
           Inl e \<Rightarrow> Inl e
         | Inr rel_trans \<Rightarrow>
            (let expected_trans =
                   map2 (-) (vec3_list (pose_position (orig ! j)))
                            (vec3_list (pose_position (orig ! i)))
             in case np_sub rel_trans expected_trans of
                  Inl e \<Rightarrow> Inl e
                | Inr trans_residual \<Rightarrow>
                   (case np_sub (take 3 (snd (ps ! j))) (take 3 (snd (ps ! i))) of
                      Inl e \<Rightarrow> Inl e
                    | Inr orient_residual \<Rightarrow>
                        Inr (trans_residual @ map (\<lambda>x. x * 0.1) orient_residual))))
      else Inr [])"

definition loop_edge_residual ::
  "(real list \<times> real list) list \<Rightarrow> nat \<Rightarrow> nat \<Rightarrow> real \<Rightarrow> py_error + real list" where
  "loop_edge_residual ps i j confidence =
     (if i < length ps \<and> j < length ps then
        (case np_sub (fst (ps ! i)) (fst (ps ! j)) of
           Inl e \<Rightarrow> Inl e
         | Inr distance_residual \<Rightarrow> Inr (map (\<lambda>x. x * confidence) distance_residual))
      else Inr [])"

text \<open>The successive \<open>residuals.extend(...)\<close>; the first exception ends the call.\<close>

fun extend_all :: "(py_error + real list) list \<Rightarrow> py_error + real list" where
  "extend_all [] = Inr []"
| "extend_all (Inl e # rs) = Inl e"
| "extend_all (Inr r # rs) =
     (case extend_all rs of Inl e \<Rightarrow> Inl e | Inr rest \<Rightarrow> Inr (r @ rest))"

definition pose_graph_residuals :: "SimpleSLAM \<Rightarrow> real list \<Rightarrow> py_error + real list" where
  "pose_graph_residuals s params =
     (let ps = params_poses (length (poses s)) params
      in extend_all
           (map (\<lambda>(i, j). odometry_edge_residual (poses s) ps i j) (odometry_edges s) @
            map (\<lambda>(i, j, confidence). loop_edge_residual ps i j confidence)
              (loop_closure_edges s)))"

text \<open>
  \<open>scipy.optimize.least_squares\<close> is a library function and a parameter of the model: it
  receives the residual function, the start vector and \<open>max_nfev\<close>, and either raises or
  returns a result of which the program reads \<open>x\<close>, \<open>success\<close> and \<open>fun\<close>.
\<close>

record ls_result =
  ls_x :: "real list"
  ls_success :: bool
  ls_fun :: "real list"

type_synonym least_squares_solver =
  "(real list \<Rightarrow> py_error + real list) \<Rightarrow> real list \<Rightarrow> nat \<Rightarrow> py_error + ls_result"

text \<open>A returned pose: timestamp, position array and quaternion array.  The quaternion
  has gone through a division, so its components are \<open>fl\<close> values.\<close>

type_synonym opt_pose = "real \<times> real list \<times> fl list"

definition np_linalg_norm :: "real list \<Rightarrow> real" where
  "np_linalg_norm v = sqrt (sum_list (map (\<lambda>x. x * x) v))"

text \<open>\<open>quaternion / np.linalg.norm(quaternion)\<close>.\<close>

definition np_normalize :: "real list \<Rightarrow> fl list" where
  "np_normalize q = map (\<lambda>x. Flt x / Flt (np_linalg_norm q)) q"

fun pose_as_returned :: "pose \<Rightarrow> opt_pose" where
  "pose_as_returned (t, p, q) = (t, vec3_list p, map Flt (quat_list q))"

definition initial_params :: "SimpleSLAM \<Rightarrow> real list" where
  "initial_params s =
     concat (map (\<lambda>(timestamp, position, quaternion).
                    vec3_list position @ quat_list quaternion) (poses s))"

text \<open>
  \<open>optimize_poses(max_iterations)\<close> returns the optimised poses and the graph, which it
  does not assign to.  Inside the \<open>try\<close> block an exception of the solver, or the
  \<open>IndexError\<close> of \<open>result.fun[0]\<close> on an empty residual vector of a successful run, leads
  to the \<open>except\<close> branch, which returns the stored poses.
\<close>

definition optimize_poses ::
  "least_squares_solver \<Rightarrow> SimpleSLAM \<Rightarrow> nat \<Rightarrow> opt_pose list \<times> SimpleSLAM" where
  "optimize_poses least_squares s max_iterations =
     (if length (poses s) < 2 then (map pose_as_returned (poses s), s)
      else
        (case least_squares (pose_graph_residuals s) (initial_params s)
                (max_iterations * length (initial_params s)) of
           Inl e \<Rightarrow> (map pose_as_returned (poses s), s)
         | Inr result \<Rightarrow>
             if ls_success result \<and> ls_fun result = []
             then (map pose_as_returned (poses s), s)
             else
               (map (\<lambda>i. let start_idx = i * 7;
                             position = slice (ls_x result) start_idx (start_idx + 3);
                             quaternion =
                               slice (ls_x result) (start_idx + 3) (start_idx + 7)
                         in (pose_time (poses s ! i), position, np_normalize quaternion))
                  [0..<length (poses s)], s)))"

section \<open>Transformation functions\<close>

text \<open>Positions, quaternions \<open>(x, y, z, w)\<close> and matrices (lists of rows) of float64
  values.\<close>

type_synonym flvec3 = "fl \<times> fl \<times> fl"

type_synonym flquat = "fl \<times> fl \<times> fl \<times> fl"

type_synonym matrix = "fl list list"

text \<open>The elementwise numpy operations on arrays of four values, \<open>np.dot\<close> and
  \<open>np.linalg.norm\<close>.\<close>

fun qscale :: "fl \<Rightarrow> flquat \<Rightarrow> flquat" where
  "qscale c (x, y, z, w) = (c * x, c * y, c * z, c * w)"

fun qdiv :: "flquat \<Rightarrow> fl \<Rightarrow> flquat" where
  "qdiv (x, y, z, w) n = (x / n, y / n, z / n, w / n)"

fun qneg :: "flquat \<Rightarrow> flquat" where
  "qneg (x, y, z, w) = (- x, - y, - z, - w)"

fun qadd :: "flquat \<Rightarrow> flquat \<Rightarrow> flquat" where
  "qadd (x1, y1, z1, w1) (x2, y2, z2, w2) = (x1 + x2, y1 + y2, z1 + z2, w1 + w2)"

fun qsub :: "flquat \<Rightarrow> flquat \<Rightarrow> flquat" where
  "qsub (x1, y1, z1, w1) (x2, y2, z2, w2) = (x1 - x2, y1 - y2, z1 - z2, w1 - w2)"

fun qdot :: "flquat \<Rightarrow> flquat \<Rightarrow> fl" where
  "qdot (x1, y1, z1, w1) (x2, y2, z2, w2) = x1 * x2 + y1 * y2 + z1 * z2 + w1 * w2"

definition qnorm :: "flquat \<Rightarrow> fl" where
  "qnorm q = fl_sqrt (qdot q q)"

text \<open>\<open>slerp_quaternions(q1, q2, t)\<close>.  The two assignments under \<open>if dot < 0.0\<close> are
  the two conditionals \<open>q2\<close> and \<open>dot\<close>.\<close>

definition slerp_quaternions :: "flquat \<Rightarrow> flquat \<Rightarrow> fl \<Rightarrow> flquat" where
  "slerp_quaternions q1_in q2_in t =
     (let q1 = qdiv q1_in (qnorm q1_in);
          q2a = qdiv q2_in (qnorm q2_in);
          dot_a = qdot q1 q2a;
          q2 = (if dot_a < 0.0 then qneg q2a else q2a);
          dot = (if dot_a < 0.0 then - dot_a else dot_a)
      in if 0.9995 < dot
         then (let result = qadd q1 (qscale t (qsub q2 q1))
               in qdiv result (qnorm result))
         else
           (let theta_0 = fl_arccos \<bar>dot\<bar>;
                sin_theta_0 = fl_sin theta_0;
                theta = theta_0 * t;
                sin_theta = fl_sin theta;
                s0 = fl_cos theta - dot * sin_theta / sin_theta_0;
                s1 = sin_theta / sin_theta_0
            in qadd (qscale s0 q1) (qscale s1 q2)))"

definition quaternion_to_rotation_matrix :: "flquat \<Rightarrow> matrix" where
  "quaternion_to_rotation_matrix quaternion =
     (case quaternion of (x0, y0, z0, w0) \<Rightarrow>
        (let norm = fl_sqrt (x0 * x0 + y0 * y0 + z0 * z0 + w0 * w0);
             x = (if 0 < norm then x0 / norm else x0);
             y = (if 0 < norm then y0 / norm else y0);
             z = (if 0 < norm then z0 / norm else z0);
             w = (if 0 < norm then w0 / norm else w0)
         in [[1 - 2 * (y * y + z * z), 2 * (x * y - z * w), 2 * (x * z + y * w)],
             [2 * (x * y + z * w), 1 - 2 * (x * x + z * z), 2 * (y * z - x * w)],
             [2 * (x * z - y * w), 2 * (y * z + x * w), 1 - 2 * (x * x + y * y)]]))"

text \<open>The matrix product \<open>A @ B\<close> of two-dimensional arrays.\<close>

definition mat_col :: "matrix \<Rightarrow> nat \<Rightarrow> fl list" where
  "mat_col B j = map (\<lambda>row. row ! j) B"

definition mat_ncols :: "matrix \<Rightarrow> nat" where
  "mat_ncols B = (case B of [] \<Rightarrow> 0 | row # rest \<Rightarrow> length row)"

definition vec_dot :: "fl list \<Rightarrow> fl list \<Rightarrow> fl" where
  "vec_dot u v = sum_list (map2 (*) u v)"

definition mat_mul :: "matrix \<Rightarrow> matrix \<Rightarrow> matrix" where
  "mat_mul A B = map (\<lambda>row. map (\<lambda>j. vec_dot row (mat_col B j)) [0..<mat_ncols B]) A"

text \<open>\<open>np.eye(4)\<close> with the block \<open>[:3, :3]\<close> set to \<open>R\<close> and the column \<open>[:3, 3]\<close> set
  to \<open>t\<close>.\<close>

definition homogeneous :: "matrix \<Rightarrow> fl list \<Rightarrow> matrix" where
  "homogeneous R t = map2 (\<lambda>row ti. row @ [ti]) R t @ [[0, 0, 0, 1]]"

definition eye3 :: matrix where
  "eye3 = [[1, 0, 0], [0, 1, 0], [0, 0, 1]]"

text \<open>The array \<open>R_lidar\<close> that \<open>create_transform_matrix\<close> writes out from the three
  angles.\<close>

definition euler_matrix :: "fl \<Rightarrow> fl \<Rightarrow> fl \<Rightarrow> matrix" where
  "euler_matrix rx ry rz =
     (let cos_rx = fl_cos rx; sin_rx = fl_sin rx;
          cos_ry = fl_cos ry; sin_ry = fl_sin ry;
          cos_rz = fl_cos rz; sin_rz = fl_sin rz
      in [[cos_ry * cos_rz, - cos_ry * sin_rz, sin_ry],
          [sin_rx * sin_ry * cos_rz + cos_rx * sin_rz,
           - sin_rx * sin_ry * sin_rz + cos_rx * cos_rz, - sin_rx * cos_ry],
          [- cos_rx * sin_ry * cos_rz + sin_rx * sin_rz,
           cos_rx * sin_ry * sin_rz + sin_rx * cos_rz, cos_rx * cos_ry]])"

fun flvec3_list :: "flvec3 \<Rightarrow> fl list" where
  "flvec3_list (x, y, z) = [x, y, z]"

text \<open>
  \<open>create_transform_matrix(position, quaternion, lidar_offset=None)\<close>.  The offset is a
  sequence of floats.  Unpacking \<open>rx, ry, rz = lidar_offset[3:6]\<close> raises \<open>ValueError\<close>
  when the offset has four or five entries; assigning \<open>lidar_offset[:3]\<close> to a column of
  three raises \<open>ValueError\<close> unless it has three entries or one (which is broadcast).
\<close>

definition create_transform_matrix ::
  "flvec3 \<Rightarrow> flquat \<Rightarrow> fl list option \<Rightarrow> py_error + matrix" where
  "create_transform_matrix position quaternion lidar_offset =
     (let transform_matrix =
            homogeneous (quaternion_to_rotation_matrix quaternion) (flvec3_list position)
      in case lidar_offset of
           None \<Rightarrow> Inr transform_matrix
         | Some off \<Rightarrow>
            (let lidar_trans = take 3 off
             in if length off > 3 \<and> length (slice off 3 6) \<noteq> 3 then Inl ValueError
                else
                  (let R_lidar =
                         (if length off > 3
                          then euler_matrix (off ! 3) (off ! 4) (off ! 5)
                          else eye3)
                   in if length lidar_trans = 3
                      then Inr (mat_mul transform_matrix (homogeneous R_lidar lidar_trans))
                      else if length lidar_trans = 1
                      then Inr (mat_mul transform_matrix
                                  (homogeneous R_lidar (replicate 3 (hd lidar_trans))))
                      else Inl ValueError)))"

text \<open>
  A two-dimensional array whose number of rows may be zero: its rows and the number of
  columns, so that its shape is \<open>(length rows, columns)\<close>.  The points handed to
  \<open>apply_transform_to_points\<close> are such an array (the documented \<open>N x 3\<close>; an array of
  another dimension is outside the model).
\<close>

record ndarray2 =
  nd_cols :: nat
  nd_rows :: matrix

text \<open>The two diagnostics \<open>apply_transform_to_points\<close> prints.\<close>

datatype warning = DeterminantWarning fl | NonFiniteWarning nat nat

text \<open>\<open>np.linalg.det\<close> of a 3 x 3 array, by cofactor expansion.  The value only decides
  whether a warning is printed.\<close>

definition det3 :: "matrix \<Rightarrow> fl" where
  "det3 M =
     (case M of
        [[a, b, c], [d, e, f], [g, h, i]] \<Rightarrow>
          a * (e * i - f * h) - b * (d * i - f * g) + c * (d * h - e * g)
      | _ \<Rightarrow> NaN)"

text \<open>\<open>M.T\<close> for an array \<open>M\<close> with \<open>ncols\<close> columns.\<close>

definition transpose_m :: "nat \<Rightarrow> matrix \<Rightarrow> matrix" where
  "transpose_m ncols M = map (\<lambda>j. mat_col M j) [0..<ncols]"

text \<open>\<open>transform_matrix.shape == (4, 4)\<close>.\<close>

definition is_4x4 :: "matrix \<Rightarrow> bool" where
  "is_4x4 T = (length T = 4 \<and> list_all (\<lambda>row. length row = 4) T)"

text \<open>\<open>apply_transform_to_points(points, transform_matrix)\<close> returns the warnings it
  printed and the transformed points.\<close>

definition apply_transform_to_points ::
  "ndarray2 \<Rightarrow> matrix \<Rightarrow> py_error + (warning list \<times> ndarray2)" where
  "apply_transform_to_points points transform_matrix =
     (if nd_cols points \<noteq> 3 then Inl ValueError
      else if \<not> is_4x4 transform_matrix then Inl ValueError
      else
        (let det = det3 (map (take 3) (take 3 transform_matrix));
             det_warning = (if 0.001 < \<bar>det - 1.0\<bar> then [DeterminantWarning det] else []);
             num_points = length (nd_rows points);
             homogeneous_points = map (\<lambda>p. p @ [1]) (nd_rows points);
             transformed_homogeneous =
               transpose_m num_points
                 (mat_mul transform_matrix (transpose_m 4 homogeneous_points));
             transformed_points = map (take 3) transformed_homogeneous;
             values = concat transformed_points;
             value_warning =
               (if list_ex is_nan values \<or> list_ex is_inf values
                then [NonFiniteWarning (length (filter is_nan values))
                        (length (filter is_inf values))]
                else [])
         in Inr (det_warning @ value_warning,
                 \<lparr> nd_cols = 3, nd_rows = transformed_points \<rparr>)))"

section \<open>Interpolation of the odometry and the transformation stage\<close>

text \<open>Sequencing of computations that may raise, and the indexing \<open>xs[i]\<close> and
  \<open>xs[-1]\<close> of Python, which raise \<open>IndexError\<close> out of range.\<close>

fun bind_err :: "py_error + 'a \<Rightarrow> ('a \<Rightarrow> py_error + 'b) \<Rightarrow> py_error + 'b" where
  "bind_err (Inl e) f = Inl e"
| "bind_err (Inr x) f = f x"

fun collect :: "(py_error + 'a) list \<Rightarrow> py_error + 'a list" where
  "collect [] = Inr []"
| "collect (Inl e # rs) = Inl e"
| "collect (Inr x # rs) = bind_err (collect rs) (\<lambda>xs. Inr (x # xs))"

definition py_index :: "'a list \<Rightarrow> nat \<Rightarrow> py_error + 'a" where
  "py_index xs i = (if i < length xs then Inr (xs ! i) else Inl IndexError)"

definition py_last :: "'a list \<Rightarrow> py_error + 'a" where
  "py_last xs = (if xs = [] then Inl IndexError else Inr (last xs))"

text \<open>\<open>np.min\<close> and \<open>np.max\<close> raise \<open>ValueError\<close> on an empty array.\<close>

fun np_min :: "real list \<Rightarrow> py_error + real" where
  "np_min [] = Inl ValueError"
| "np_min (x # xs) = Inr (fold min xs x)"

fun np_max :: "real list \<Rightarrow> py_error + real" where
  "np_max [] = Inl ValueError"
| "np_max (x # xs) = Inr (fold max xs x)"

text \<open>\<open>np.searchsorted(a, key)\<close> (side \<open>left\<close>): the binary search of numpy, which is
  run whether or not the array is sorted.\<close>

function bsearch_left :: "real list \<Rightarrow> real \<Rightarrow> nat \<Rightarrow> nat \<Rightarrow> nat" where
  "bsearch_left a key lo hi =
     (if lo < hi
      then (if a ! (lo + (hi - lo) div 2) < key
            then bsearch_left a key (lo + (hi - lo) div 2 + 1) hi
            else bsearch_left a key lo (lo + (hi - lo) div 2))
      else lo)"
  by pat_completeness auto
termination
  by (relation "measure (\<lambda>(a, key, lo, hi). hi - lo)") auto

definition searchsorted :: "real list \<Rightarrow> real \<Rightarrow> nat" where
  "searchsorted a key = bsearch_left a key 0 (length a)"

text \<open>
  \<open>interp1d(x, y, kind='linear', bounds_error=False, fill_value='extrapolate')(x_new)\<close>
  of scipy, for \<open>x\<close> and \<open>y\<close> of one length of at least two: the samples are sorted by
  \<open>x\<close> (a stable sort), the interval is found by \<open>searchsorted\<close> clipped to
  \<open>[1, len(x) - 1]\<close>, and the value is \<open>slope * (x_new - x_lo) + y_lo\<close>.  Two equal
  abscissae make the slope a division by zero.
\<close>

definition interp1d_linear :: "real list \<Rightarrow> fl list \<Rightarrow> real \<Rightarrow> fl" where
  "interp1d_linear x y x_new =
     (let sorted = sort_key fst (zip x y);
          xs = map fst sorted;
          ys = map snd sorted;
          i = min (max (searchsorted xs x_new) 1) (length xs - 1);
          lo = i - 1;
          hi = i;
          slope = (ys ! hi - ys ! lo) / Flt (xs ! hi - xs ! lo)
      in slope * Flt (x_new - xs ! lo) + ys ! lo)"

definition np_clip :: "real \<Rightarrow> real \<Rightarrow> real \<Rightarrow> real" where
  "np_clip t lo hi = min (max t lo) hi"

text \<open>The body of the loop over the point-cloud timestamps: the orientation for one
  \<open>pc_time\<close>.\<close>

definition interpolate_orientation ::
  "real list \<Rightarrow> flquat list \<Rightarrow> real \<Rightarrow> py_error + flquat" where
  "interpolate_orientation odom_timestamps odom_orientations pc_time =
     bind_err (py_index odom_timestamps 0) (\<lambda>first_time.
       if pc_time \<le> first_time then py_index odom_orientations 0
       else
         bind_err (py_last odom_timestamps) (\<lambda>last_time.
           if last_time \<le> pc_time then py_last odom_orientations
           else
             (let found = searchsorted odom_timestamps pc_time;
                  idx = (if found = 0 then 1 else found)
              in bind_err (py_index odom_timestamps (idx - 1)) (\<lambda>t1.
                 bind_err (py_index odom_timestamps idx) (\<lambda>t2.
                 bind_err (py_index odom_orientations (idx - 1)) (\<lambda>q1.
                 bind_err (py_index odom_orientations idx) (\<lambda>q2.
                   (let t = (if t2 \<noteq> t1 then (pc_time - t1) / (t2 - t1) else 0.0)
                    in Inr (slerp_quaternions q1 q2 (Flt (np_clip t 0.0 1.0)))))))))))"

text \<open>The \<open>try\<close> block of \<open>interpolate_odometry_data\<close>.  The constructor of
  \<open>interp1d\<close> raises \<open>ValueError\<close> when positions and timestamps differ in length.\<close>

definition interpolation_body ::
  "real list \<Rightarrow> real list \<Rightarrow> flvec3 list \<Rightarrow> flquat list
     \<Rightarrow> py_error + (flvec3 list \<times> flquat list)" where
  "interpolation_body pc_timestamps odom_timestamps odom_positions odom_orientations =
     (if length odom_positions \<noteq> length odom_timestamps then Inl ValueError
      else
        (let interp_x = interp1d_linear odom_timestamps (map fst odom_positions);
             interp_y = interp1d_linear odom_timestamps (map (fst \<circ> snd) odom_positions);
             interp_z = interp1d_linear odom_timestamps (map (snd \<circ> snd) odom_positions);
             interpolated_positions =
               map (\<lambda>pc_time. (interp_x pc_time, interp_y pc_time, interp_z pc_time))
                 pc_timestamps
         in bind_err
              (collect (map (interpolate_orientation odom_timestamps odom_orientations)
                          pc_timestamps))
              (\<lambda>interpolated_orientations.
                 Inr (interpolated_positions, interpolated_orientations))))"

text \<open>
  \<open>interpolate_odometry_data\<close>: \<open>Inr None\<close> is the sentinel \<open>(None, None)\<close>.  The four
  calls of \<open>np.min\<close> and \<open>np.max\<close> stand before the \<open>try\<close> block; every exception
  inside the block ends in the sentinel.
\<close>

definition interpolate_odometry_data ::
  "real list \<Rightarrow> real list \<Rightarrow> flvec3 list \<Rightarrow> flquat list
     \<Rightarrow> py_error + (flvec3 list \<times> flquat list) option" where
  "interpolate_odometry_data pc_timestamps odom_timestamps odom_positions odom_orientations =
     (if length odom_timestamps < 2 then Inr None
      else
        bind_err (np_min odom_timestamps) (\<lambda>odom_start.
        bind_err (np_max odom_timestamps) (\<lambda>odom_end.
        bind_err (np_min pc_timestamps) (\<lambda>pc_start.
        bind_err (np_max pc_timestamps) (\<lambda>pc_end.
          (let overlap_start = max odom_start pc_start;
               overlap_end = min odom_end pc_end
           in if overlap_end \<le> overlap_start then Inr None
              else
                (case interpolation_body pc_timestamps odom_timestamps odom_positions
                        odom_orientations of
                   Inl e \<Rightarrow> Inr None
                 | Inr result \<Rightarrow> Inr (Some result))))))))"

text \<open>
  \<open>np.linalg.inv\<close> of a square array.  On finite entries it is the inverse (here by
  cofactors), or \<open>LinAlgError\<close> for a singular matrix.  What LAPACK returns for an array
  with non-finite entries is not modelled: it is the parameter \<open>nonfinite_result\<close>.
\<close>

fun fl_finite :: "fl \<Rightarrow> bool" where
  "fl_finite (Flt a) = True"
| "fl_finite _ = False"

fun fl_real :: "fl \<Rightarrow> real" where
  "fl_real (Flt a) = a"
| "fl_real _ = 0"

definition remove_nth :: "nat \<Rightarrow> 'a list \<Rightarrow> 'a list" where
  "remove_nth i xs = take i xs @ drop (Suc i) xs"

function det_r :: "real list list \<Rightarrow> real" where
  "det_r [] = 1"
| "det_r (r # rs) =
     sum_list (map (\<lambda>j. (- 1) ^ j * r ! j * det_r (map (remove_nth j) rs)) [0..<length r])"
  by pat_completeness auto
termination
  by (relation "measure length") auto

definition np_linalg_inv :: "(matrix \<Rightarrow> matrix) \<Rightarrow> matrix \<Rightarrow> py_error + matrix" where
  "np_linalg_inv nonfinite_result M =
     (if list_all (list_all fl_finite) M
      then
        (let A = map (map fl_real) M;
             n = length A;
             d = det_r A
         in if d = 0 then Inl LinAlgError
            else Inr (map (\<lambda>i. map (\<lambda>j. Flt ((- 1) ^ (i + j) *
                            det_r (map (remove_nth i) (remove_nth j A)) / d)) [0..<n])
                        [0..<n]))
      else Inr (nonfinite_result M))"

text \<open>The transform modes \<open>"none"\<close>, \<open>"global"\<close> and \<open>"local"\<close>, and the state of the
  local variable \<open>interp_positions\<close> of \<open>convert_bag_to_laz\<close>: never assigned, or
  assigned \<open>None\<close> or the interpolated arrays.  The odometry is the three arrays
  \<open>(odom_timestamps, odom_positions, odom_orientations)\<close>, or \<open>None\<close>.\<close>

datatype transform_mode = ModeNone | ModeGlobal | ModeLocal

datatype interp_var = Unbound | Bound "(flvec3 list \<times> flquat list) option"

type_synonym odometry = "real list \<times> flvec3 list \<times> flquat list"

text \<open>The block "prepare transformation if needed": it yields the transform mode, the
  interpolation and the reference transform that the second pass uses.\<close>

definition prepare_transformation ::
  "(matrix \<Rightarrow> matrix) \<Rightarrow> transform_mode \<Rightarrow> odometry option \<Rightarrow> real list
     \<Rightarrow> py_error + (transform_mode \<times> interp_var \<times> matrix option)" where
  "prepare_transformation nonfinite_result transform_mode odom message_timestamps =
     (case odom of
        None \<Rightarrow> Inr (transform_mode, Unbound, None)
      | Some (odom_timestamps, odom_positions, odom_orientations) \<Rightarrow>
          if transform_mode = ModeGlobal \<or> transform_mode = ModeLocal
          then
            bind_err (interpolate_odometry_data message_timestamps odom_timestamps
                        odom_positions odom_orientations) (\<lambda>interp.
              case interp of
                None \<Rightarrow> Inr (ModeNone, Bound None, None)
              | Some (interp_positions, interp_orientations) \<Rightarrow>
                  if transform_mode = ModeLocal
                  then
                    bind_err (py_index interp_positions 0) (\<lambda>p0.
                    bind_err (py_index interp_orientations 0) (\<lambda>q0.
                    bind_err (create_transform_matrix p0 q0 None) (\<lambda>reference.
                    bind_err (np_linalg_inv nonfinite_result reference) (\<lambda>inverse.
                      Inr (transform_mode, Bound interp, Some inverse)))))
                  else Inr (transform_mode, Bound interp, None))
          else Inr (transform_mode, Unbound, None))"

text \<open>The transform matrix chosen for the message \<open>msg_idx\<close> in the second pass.  Reading
  \<open>interp_positions\<close> when it was never assigned raises \<open>UnboundLocalError\<close>.\<close>

definition message_transform ::
  "transform_mode \<Rightarrow> interp_var \<Rightarrow> matrix option \<Rightarrow> nat \<Rightarrow> py_error + matrix option" where
  "message_transform transform_mode interp reference_transform msg_idx =
     (if transform_mode = ModeGlobal \<or> transform_mode = ModeLocal
      then
        (case interp of
           Unbound \<Rightarrow> Inl UnboundLocalError
         | Bound None \<Rightarrow> Inr None
         | Bound (Some (interp_positions, interp_orientations)) \<Rightarrow>
             bind_err (py_index interp_positions msg_idx) (\<lambda>p.
             bind_err (py_index interp_orientations msg_idx) (\<lambda>q.
             bind_err (create_transform_matrix p q None) (\<lambda>msg_transform.
               if transform_mode = ModeGlobal then Inr (Some msg_transform)
               else
                 (case reference_transform of
                    None \<Rightarrow> Inl TypeError
                  | Some reference \<Rightarrow> Inr (Some (mat_mul reference msg_transform)))))))
      else Inr None)"

text \<open>\<open>np.array(msg_points)\<close> for a non-empty list of coordinate triples, and back.\<close>

definition points_array :: "flvec3 list \<Rightarrow> ndarray2" where
  "points_array pts = \<lparr> nd_cols = 3, nd_rows = map flvec3_list pts \<rparr>"

definition row_point :: "fl list \<Rightarrow> flvec3" where
  "row_point row = (row ! 0, row ! 1, row ! 2)"

text \<open>The points one message adds to the output lists.\<close>

definition transform_message :: "matrix option \<Rightarrow> flvec3 list \<Rightarrow> py_error + flvec3 list" where
  "transform_message transform_matrix msg_points =
     (if length msg_points > 0
      then
        (case transform_matrix of
           None \<Rightarrow> Inr msg_points
         | Some T \<Rightarrow>
             bind_err (apply_transform_to_points (points_array msg_points) T)
               (\<lambda>(warnings, transformed). Inr (map row_point (nd_rows transformed))))
      else Inr [])"

text \<open>
  The part of \<open>convert_bag_to_laz\<close> from the collected messages to the output
  coordinates.  A message is its ROS timestamp and the points read from it, \<open>None\<close> when
  reading them raised (the timestamp is recorded all the same).  The result lists the
  points \<open>(x, y, z)\<close> in the order of \<open>x_list\<close>, \<open>y_list\<close>, \<open>z_list\<close>.  The function has
  returned before this stage when the topic holds no message.
\<close>

definition transform_stage ::
  "(matrix \<Rightarrow> matrix) \<Rightarrow> transform_mode \<Rightarrow> odometry option
     \<Rightarrow> (real \<times> flvec3 list option) list \<Rightarrow> py_error + flvec3 list" where
  "transform_stage nonfinite_result transform_mode odom messages =
     (let message_timestamps = map fst messages;
          message_points_data =
            concat (map (\<lambda>(message_time, points).
                           case points of None \<Rightarrow> [] | Some pts \<Rightarrow> [pts]) messages)
      in bind_err (prepare_transformation nonfinite_result transform_mode odom
                     message_timestamps) (\<lambda>(mode, interp, reference_transform).
         bind_err (collect (map (\<lambda>(msg_idx, points_in_message).
                      bind_err (message_transform mode interp reference_transform msg_idx)
                        (\<lambda>transform_matrix.
                           transform_message transform_matrix points_in_message))
                    (enumerate 0 message_points_data)))
           (\<lambda>batches. Inr (concat batches))))"

section \<open>Notions of the specification\<close>

text \<open>A cloud that is \<open>None\<close> or has no points.\<close>

definition cloud_missing :: "cloud option \<Rightarrow> bool" where
  "cloud_missing pc = (case pc of None \<Rightarrow> True | Some c \<Rightarrow> length c = 0)"

text \<open>
  The confidence of a loop-closure edge as the specification words it:
  \<open>max(0, 1 - distance/loop_closure_distance)\<close>, multiplied by the similarity score of
  the two poses' clouds when clouds are supplied for both.
\<close>

definition spec_confidence ::
  "SimpleSLAM \<Rightarrow> cloud option list option \<Rightarrow> (nat \<Rightarrow> nat \<Rightarrow> nat list \<times> nat list)
     \<Rightarrow> nat \<Rightarrow> nat \<Rightarrow> real" where
  "spec_confidence s point_clouds draws i j =
     (let distance = vdist (pose_position (poses s ! i)) (pose_position (poses s ! j));
          confidence = max 0 (1 - distance / loop_closure_distance s)
      in case point_clouds of
           None \<Rightarrow> confidence
         | Some pcs \<Rightarrow>
             if i < length pcs \<and> j < length pcs
             then confidence *
               calculate_point_cloud_similarity
                 (fst (draws i j)) (snd (draws i j)) (pcs ! i) (pcs ! j) 1000
             else confidence)"

text \<open>Three poses at one place, ten seconds apart, in a graph with radius 3 and
  minimum time gap 15.\<close>

definition three_poses_one_place :: SimpleSLAM where
  "three_poses_one_place =
     \<lparr> loop_closure_distance = 3, min_time_gap = 15,
       poses = [(0, (0, 0, 0), (0, 0, 0, 1)), (10, (0, 0, 0), (0, 0, 0, 1)),
                (20, (0, 0, 0), (0, 0, 0, 1))],
       odometry_edges = [(0, 1), (1, 2)],
       loop_closure_edges = [] \<rparr>"

definition no_draws :: "nat \<Rightarrow> nat \<Rightarrow> nat list \<times> nat list" where
  "no_draws i j = ([], [])"

text \<open>The position and the quaternion \<open>x, y, z\<close> components of pose \<open>k\<close> in a parameter
  vector with seven floats per pose, and the residual vector as the specification words
  it.\<close>

definition spec_pos :: "real list \<Rightarrow> nat \<Rightarrow> real list" where
  "spec_pos params k = [params ! (7 * k), params ! (7 * k + 1), params ! (7 * k + 2)]"

definition spec_quat_xyz :: "real list \<Rightarrow> nat \<Rightarrow> real list" where
  "spec_quat_xyz params k = [params ! (7 * k + 3), params ! (7 * k + 4), params ! (7 * k + 5)]"

definition vsub :: "real list \<Rightarrow> real list \<Rightarrow> real list" where
  "vsub a b = map2 (-) a b"

definition spec_sequential_residual :: "SimpleSLAM \<Rightarrow> real list \<Rightarrow> nat \<times> nat \<Rightarrow> real list" where
  "spec_sequential_residual s params e =
     (case e of (i, j) \<Rightarrow>
        vsub (vsub (spec_pos params j) (spec_pos params i))
             (vsub (vec3_list (pose_position (poses s ! j)))
                   (vec3_list (pose_position (poses s ! i)))) @
        map (\<lambda>x. 0.1 * x) (vsub (spec_quat_xyz params j) (spec_quat_xyz params i)))"

definition spec_loop_residual :: "real list \<Rightarrow> nat \<times> nat \<times> real \<Rightarrow> real list" where
  "spec_loop_residual params e =
     (case e of (i, j, confidence) \<Rightarrow>
        map (\<lambda>x. confidence * x) (vsub (spec_pos params i) (spec_pos params j)))"

definition spec_residuals :: "SimpleSLAM \<Rightarrow> real list \<Rightarrow> real list" where
  "spec_residuals s params =
     concat (map (spec_sequential_residual s params) (odometry_edges s)) @
     concat (map (spec_loop_residual params) (loop_closure_edges s))"

text \<open>Every edge of the graph joins two existing poses, as is the case for the edges
  \<open>add_pose\<close> and \<open>detect_loop_closures\<close> create.\<close>

definition edges_in_range :: "SimpleSLAM \<Rightarrow> bool" where
  "edges_in_range s =
     (list_all (\<lambda>(i, j). i < length (poses s) \<and> j < length (poses s)) (odometry_edges s) \<and>
      list_all (\<lambda>(i, j, c). i < length (poses s) \<and> j < length (poses s))
        (loop_closure_edges s))"

text \<open>The Euclidean norm of an array of \<open>fl\<close> values.\<close>

definition fl_norm :: "fl list \<Rightarrow> fl" where
  "fl_norm v = fl_sqrt (sum_list (map (\<lambda>x. x * x) v))"

text \<open>The solver result does not trip the \<open>result.fun[0]\<close> of the success message.\<close>

definition solver_result_ok :: "ls_result \<Rightarrow> bool" where
  "solver_result_ok r = (\<not> (ls_success r \<and> ls_fun r = []))"

text \<open>Two solver behaviours used as examples: a run that stops at its start vector (what
  a least-squares solver does when the start is stationary), and a run that raises.\<close>

definition stationary_solver :: least_squares_solver where
  "stationary_solver f x0 max_nfev =
     (case f x0 of
        Inl e \<Rightarrow> Inl e
      | Inr r \<Rightarrow> Inr \<lparr> ls_x = x0, ls_success = True, ls_fun = r \<rparr>)"

definition failing_solver :: least_squares_solver where
  "failing_solver f x0 max_nfev = Inl ValueError"

definition two_poses_zero_quaternion :: SimpleSLAM where
  "two_poses_zero_quaternion =
     build_pose_graph [(0, (0, 0, 0), (0, 0, 0, 0)), (1, (1, 0, 0), (0, 0, 0, 0))]"

definition two_poses_double_quaternion :: SimpleSLAM where
  "two_poses_double_quaternion =
     build_pose_graph [(0, (0, 0, 0), (0, 0, 0, 2)), (1, (1, 0, 0), (0, 0, 0, 2))]"

definition graph_with_loop_edge :: SimpleSLAM where
  "graph_with_loop_edge =
     \<lparr> loop_closure_distance = 3, min_time_gap = 15,
       poses = [(0, (0, 0, 0), (0, 0, 0, 1)), (20, (1, 0, 0), (0, 0, 0, 1))],
       odometry_edges = [(0, 1)], loop_closure_edges = [(0, 1, 0.5)] \<rparr>"

text \<open>The elementary rotations about the coordinate axes, the transform of a pose
  without offset, and the normalisation of a quaternion.\<close>

definition Rx :: "fl \<Rightarrow> matrix" where
  "Rx a = [[1, 0, 0], [0, fl_cos a, - fl_sin a], [0, fl_sin a, fl_cos a]]"

definition Ry :: "fl \<Rightarrow> matrix" where
  "Ry a = [[fl_cos a, 0, fl_sin a], [0, 1, 0], [- fl_sin a, 0, fl_cos a]]"

definition Rz :: "fl \<Rightarrow> matrix" where
  "Rz a = [[fl_cos a, - fl_sin a, 0], [fl_sin a, fl_cos a, 0], [0, 0, 1]]"

definition pose_transform :: "flvec3 \<Rightarrow> flquat \<Rightarrow> matrix" where
  "pose_transform position quaternion =
     homogeneous (quaternion_to_rotation_matrix quaternion) (flvec3_list position)"

definition normalized :: "flquat \<Rightarrow> flquat" where
  "normalized q = qdiv q (qnorm q)"

text \<open>The rows of a two-dimensional array all have its number of columns.\<close>

definition is_ndarray2 :: "ndarray2 \<Rightarrow> bool" where
  "is_ndarray2 a = list_all (\<lambda>row. length row = nd_cols a) (nd_rows a)"

text \<open>The homogeneous multiplication: the first three components of
  \<open>T \<cdot> (x, y, z, 1)\<close>.\<close>

definition transform_point :: "matrix \<Rightarrow> fl list \<Rightarrow> fl list" where
  "transform_point T p = take 3 (map (\<lambda>row. vec_dot row (p @ [1])) T)"

definition scaling_by_two :: matrix where
  "scaling_by_two = [[2, 0, 0, 0], [0, 2, 0, 0], [0, 0, 2, 0], [0, 0, 0, 1]]"

definition eye4 :: matrix where
  "eye4 = [[1, 0, 0, 0], [0, 1, 0, 0], [0, 0, 1, 0], [0, 0, 0, 1]]"

text \<open>The end-to-end scenario: three poses at times 0, 10, 20 with positions
  \<open>(0,0,0)\<close>, \<open>(1,0,0)\<close>, \<open>(2,0,0)\<close> and identity orientation, and one scan with the single
  point \<open>(0,0,0)\<close> at each of these times.\<close>

definition identity_quaternion :: flquat where
  "identity_quaternion = (0, 0, 0, 1)"

definition scenario_odometry :: odometry where
  "scenario_odometry =
     ([0, 10, 20], [(0, 0, 0), (1, 0, 0), (2, 0, 0)],
      [identity_quaternion, identity_quaternion, identity_quaternion])"

definition scenario_messages :: "(real \<times> flvec3 list option) list" where
  "scenario_messages =
     [(0, Some [(0, 0, 0)]), (10, Some [(0, 0, 0)]), (20, Some [(0, 0, 0)])]"

text \<open>The points of the messages as they were read, and two time ranges that do not
  overlap.\<close>

definition untransformed_points :: "(real \<times> flvec3 list option) list \<Rightarrow> flvec3 list" where
  "untransformed_points messages =
     concat (concat (map (\<lambda>(message_time, points).
                            case points of None \<Rightarrow> [] | Some pts \<Rightarrow> [pts]) messages))"

definition ranges_disjoint :: "real list \<Rightarrow> real list \<Rightarrow> bool" where
  "ranges_disjoint xs ys = (Max (set xs) < Min (set ys) \<or> Max (set ys) < Min (set xs))"

definition scenario_positions :: "flvec3 list" where
  "scenario_positions = [(Flt 0, Flt 0, Flt 0), (Flt 1, Flt 0, Flt 0), (Flt 2, Flt 0, Flt 0)]"

declare bsearch_left.simps [simp del]

section \<open>Properties\<close>

subsection \<open>Arithmetic of the numeric values\<close>

lemma numeral_fl: "(numeral n :: fl) = Flt (numeral n)"
proof (induction n)
  case One
  show ?case by (simp add: one_fl_def)
next
  case (Bit0 n)
  have "(numeral (num.Bit0 n) :: fl) = numeral n + numeral n"
    by (rule numeral.simps)
  also have "\<dots> = Flt (numeral n + numeral n)"
    by (simp only: Bit0 plus_fl.simps)
  also have "numeral n + numeral n = (numeral (num.Bit0 n) :: real)"
    by (simp only: numeral.simps)
  finally show ?case .
next
  case (Bit1 n)
  have "(numeral (num.Bit1 n) :: fl) = numeral n + numeral n + 1"
    by (rule numeral.simps)
  also have "\<dots> = Flt (numeral n + numeral n + 1)"
    by (simp only: Bit1 plus_fl.simps one_fl_def)
  also have "numeral n + numeral n + 1 = (numeral (num.Bit1 n) :: real)"
    by (simp only: numeral.simps)
  finally show ?case .
qed

lemma power_fl: "Flt a ^ n = Flt (a ^ n)"
  by (induction n) (simp_all add: one_fl_def)

lemmas fl_eval = numeral_fl power_fl zero_fl_def one_fl_def minus_fl_def

subsection \<open>The pose graph\<close>

lemma add_pose_config:
  "loop_closure_distance (snd (add_pose s ts p q)) = loop_closure_distance s \<and>
   min_time_gap (snd (add_pose s ts p q)) = min_time_gap s"
  by (simp add: add_pose_def Let_def)

lemma fold_add_pose_config:
  "loop_closure_distance
     (fold (\<lambda>sample s. snd (add_pose s (pose_time sample) (pose_position sample)
                               (pose_quaternion sample))) odom s0) = loop_closure_distance s0 \<and>
   min_time_gap
     (fold (\<lambda>sample s. snd (add_pose s (pose_time sample) (pose_position sample)
                               (pose_quaternion sample))) odom s0) = min_time_gap s0"
  by (induction odom arbitrary: s0) (simp_all add: add_pose_config)

text \<open>
  C9 (as amended).  \<open>apply_slam_optimization\<close> always builds its pose graph with a
  loop-closure search radius of 3.0 and a minimum time gap of 15.0, whatever the
  odometry; the constructor of \<open>SimpleSLAM\<close> itself defaults to 2.0 and 10.0.
\<close>

theorem slam_configuration_constants:
  "loop_closure_distance (build_pose_graph odom) = 3.0 \<and>
   min_time_gap (build_pose_graph odom) = 15.0 \<and>
   loop_closure_distance (SimpleSLAM_init None None) = 2.0 \<and>
   min_time_gap (SimpleSLAM_init None None) = 10.0"
  by (simp add: build_pose_graph_def fold_add_pose_config SimpleSLAM_init_def)

text \<open>The optimizer constructed with its defaults does not have the radius 3.0 and the
  time gap 15.0.\<close>

theorem slam_constructor_defaults_counterexample:
  "\<not> (loop_closure_distance (SimpleSLAM_init None None) = 3.0 \<and>
      min_time_gap (SimpleSLAM_init None None) = 15.0)"
  by (simp add: SimpleSLAM_init_def)

subsection \<open>Point-cloud similarity\<close>

lemma similarity_missing:
  "cloud_missing pc1 \<or> cloud_missing pc2 \<Longrightarrow>
     calculate_point_cloud_similarity idx1 idx2 pc1 pc2 max_points = 0"
  by (auto simp: cloud_missing_def calculate_point_cloud_similarity_def split: option.splits)

lemma similarity_positive:
  "\<not> cloud_missing pc1 \<Longrightarrow> \<not> cloud_missing pc2 \<Longrightarrow>
     0 < calculate_point_cloud_similarity idx1 idx2 pc1 pc2 max_points"
  by (auto simp: cloud_missing_def calculate_point_cloud_similarity_def Let_def
        split: option.splits)

subsection \<open>Loop-closure detection\<close>

lemma vdist_sym: "vdist a b = vdist b a"
  by (cases a; cases b) (simp add: vdist_def power2_commute)

lemma vdist_same: "vdist a a = 0"
  by (cases a) (simp add: vdist_def)

lemma candidate_eq:
  assumes "loop_closure_distance s \<noteq> 0"
  shows "loop_closure_candidate s pcs draws i j =
     (if j \<le> i then []
      else if \<bar>pose_time (poses s ! i) - pose_time (poses s ! j)\<bar> < min_time_gap s then []
      else if 0.3 < spec_confidence s pcs draws i j
           then [(i, j, spec_confidence s pcs draws i j)] else [])"
  using assms
  by (simp add: loop_closure_candidate_def spec_confidence_def Let_def split: option.split)

lemma candidate_iff:
  assumes "loop_closure_distance s \<noteq> 0"
  shows "e \<in> set (loop_closure_candidate s pcs draws i j) \<longleftrightarrow>
     i < j \<and> min_time_gap s \<le> \<bar>pose_time (poses s ! i) - pose_time (poses s ! j)\<bar> \<and>
     0.3 < spec_confidence s pcs draws i j \<and> e = (i, j, spec_confidence s pcs draws i j)"
  unfolding candidate_eq[OF assms] by auto

lemma candidate_shape:
  "(a, b, c) \<in> set (loop_closure_candidate s pcs draws i j) \<Longrightarrow> a = i \<and> b = j"
  by (simp add: loop_closure_candidate_def Let_def split: if_splits)

lemma candidate_short_gap:
  "\<bar>pose_time (poses s ! i) - pose_time (poses s ! j)\<bar> < min_time_gap s \<Longrightarrow>
     loop_closure_candidate s pcs draws i j = []"
  by (simp add: loop_closure_candidate_def Let_def)

lemma candidate_missing:
  assumes "i < length pcs" and "j < length pcs"
    and "cloud_missing (pcs ! i) \<or> cloud_missing (pcs ! j)"
  shows "loop_closure_candidate s (Some pcs) draws i j = []"
  using assms(1,2) similarity_missing[OF assms(3)]
  by (simp add: loop_closure_candidate_def Let_def)

lemma query_ball_point_mem:
  "j \<in> set (query_ball_point (map pose_position ps) x r) \<longleftrightarrow>
     j < length ps \<and> vdist (pose_position (ps ! j)) x \<le> r"
  by (auto simp: query_ball_point_def)

lemma detect_mem:
  assumes "3 \<le> length (poses s)"
  shows "e \<in> set (fst (detect_loop_closures s pcs draws)) \<longleftrightarrow>
     (\<exists>i < length (poses s). \<exists>j < length (poses s).
        vdist (pose_position (poses s ! j)) (pose_position (poses s ! i))
          \<le> loop_closure_distance s \<and>
        e \<in> set (loop_closure_candidate s pcs draws i j))"
proof -
  have "fst (detect_loop_closures s pcs draws) =
      concat (map (\<lambda>i.
        concat (map (\<lambda>j. loop_closure_candidate s pcs draws i j)
          (query_ball_point (map pose_position (poses s)) (pose_position (poses s ! i))
             (loop_closure_distance s))))
        [0..<length (poses s)])"
    using assms by (simp add: detect_loop_closures_def Let_def)
  then show ?thesis
    by (auto simp: query_ball_point_mem Bex_def)
qed

lemma detect_few: "length (poses s) < 3 \<Longrightarrow> detect_loop_closures s pcs draws = ([], s)"
  by (simp add: detect_loop_closures_def)

lemma detect_edge_from_candidate:
  assumes "(i, j, c) \<in> set (fst (detect_loop_closures s pcs draws))"
  shows "(i, j, c) \<in> set (loop_closure_candidate s pcs draws i j)"
proof (cases "length (poses s) < 3")
  case True
  with assms show ?thesis by (simp add: detect_few)
next
  case False
  then have "3 \<le> length (poses s)" by simp
  from assms[unfolded detect_mem[OF this]]
  obtain i' j' where "(i, j, c) \<in> set (loop_closure_candidate s pcs draws i' j')"
    by blast
  with candidate_shape[OF this] show ?thesis by simp
qed

lemma detect_characterisation:
  assumes "0 < loop_closure_distance s" and "3 \<le> length (poses s)"
  shows "set (fst (detect_loop_closures s pcs draws)) =
           {(i, j, c). i < j \<and> j < length (poses s) \<and>
              vdist (pose_position (poses s ! i)) (pose_position (poses s ! j))
                \<le> loop_closure_distance s \<and>
              min_time_gap s \<le> \<bar>pose_time (poses s ! i) - pose_time (poses s ! j)\<bar> \<and>
              c = spec_confidence s pcs draws i j \<and> 0.3 < c}"
proof -
  have nz: "loop_closure_distance s \<noteq> 0" using assms(1) by simp
  show ?thesis
  proof (rule set_eqI)
    fix e :: "nat \<times> nat \<times> real"
    obtain i j c where e: "e = (i, j, c)" by (cases e) auto
    show "e \<in> set (fst (detect_loop_closures s pcs draws)) \<longleftrightarrow>
          e \<in> {(i, j, c). i < j \<and> j < length (poses s) \<and>
              vdist (pose_position (poses s ! i)) (pose_position (poses s ! j))
                \<le> loop_closure_distance s \<and>
              min_time_gap s \<le> \<bar>pose_time (poses s ! i) - pose_time (poses s ! j)\<bar> \<and>
              c = spec_confidence s pcs draws i j \<and> 0.3 < c}"
      unfolding detect_mem[OF assms(2)] candidate_iff[OF nz] e
      using vdist_sym[of "pose_position (poses s ! j)" "pose_position (poses s ! i)"]
      by auto
  qed
qed

lemma spec_confidence_same_place:
  assumes "0 < loop_closure_distance s"
    and "pose_position (poses s ! i) = pose_position (poses s ! j)"
  shows "spec_confidence s None draws i j = 1"
  using assms by (simp add: spec_confidence_def vdist_same)

text \<open>
  C10.  When either cloud is \<open>None\<close> or has no points the similarity score is exactly
  0 (the function has no raising path on such arguments), whereas on two clouds with
  points it is positive; so a pair of poses for which clouds are supplied and one of
  them is missing or empty never becomes a loop-closure edge.
\<close>

theorem similarity_zero_without_points:
  "(cloud_missing pc1 \<or> cloud_missing pc2 \<longrightarrow>
      calculate_point_cloud_similarity idx1 idx2 pc1 pc2 max_points = 0) \<and>
   (\<not> cloud_missing pc1 \<and> \<not> cloud_missing pc2 \<longrightarrow>
      0 < calculate_point_cloud_similarity idx1 idx2 pc1 pc2 max_points) \<and>
   (i < length pcs \<and> j < length pcs \<and> (cloud_missing (pcs ! i) \<or> cloud_missing (pcs ! j)) \<longrightarrow>
      (i, j, c) \<notin> set (fst (detect_loop_closures s (Some pcs) draws)))"
proof (intro conjI impI)
  assume "cloud_missing pc1 \<or> cloud_missing pc2"
  then show "calculate_point_cloud_similarity idx1 idx2 pc1 pc2 max_points = 0"
    by (rule similarity_missing)
next
  assume "\<not> cloud_missing pc1 \<and> \<not> cloud_missing pc2"
  then show "0 < calculate_point_cloud_similarity idx1 idx2 pc1 pc2 max_points"
    by (simp add: similarity_positive)
next
  assume a: "i < length pcs \<and> j < length pcs \<and>
             (cloud_missing (pcs ! i) \<or> cloud_missing (pcs ! j))"
  show "(i, j, c) \<notin> set (fst (detect_loop_closures s (Some pcs) draws))"
  proof
    assume "(i, j, c) \<in> set (fst (detect_loop_closures s (Some pcs) draws))"
    then have "(i, j, c) \<in> set (loop_closure_candidate s (Some pcs) draws i j)"
      by (rule detect_edge_from_candidate)
    moreover have "loop_closure_candidate s (Some pcs) draws i j = []"
      using a by (intro candidate_missing) simp_all
    ultimately show False by simp
  qed
qed

theorem similarity_zero_without_points_witness:
  "calculate_point_cloud_similarity [] [] None (Some [(1, 2, 3)]) 1000 = 0 \<and>
   0 < calculate_point_cloud_similarity [] [] (Some [(1, 2, 3)]) (Some [(1, 2, 3)]) 1000 \<and>
   (0, 2, 1) \<notin> set (fst (detect_loop_closures three_poses_one_place
       (Some [Some [(1, 2, 3)], None, Some []]) no_draws))"
  using similarity_zero_without_points[of None "Some [(1, 2, 3)]" "[]" "[]" 1000]
    similarity_zero_without_points[of "Some [(1, 2, 3)]" "Some [(1, 2, 3)]" "[]" "[]" 1000]
    similarity_zero_without_points[of "Some [(1, 2, 3)]" "Some [(1, 2, 3)]" "[]" "[]" 1000
      0 "[Some [(1, 2, 3)], None, Some []]" 2 1 three_poses_one_place no_draws]
  by (simp add: cloud_missing_def)

text \<open>
  C3.  With a positive search radius and at least three poses, the edges returned are
  exactly the triples \<open>(i, j, c)\<close> with \<open>i < j\<close>, the two positions at Euclidean
  distance at most the radius, a time gap of at least \<open>min_time_gap\<close>, and
  \<open>c > 0.3\<close>, where \<open>c\<close> is \<open>max(0, 1 - distance/radius)\<close> times the similarity score
  when clouds are supplied for both poses.  Two poses at one place with an adequate time
  gap and no clouds give the edge with confidence 1; a pair at one place whose time gap is
  too short gives no edge; below three poses the result is empty.
\<close>

theorem detect_loop_closures_edges:
  assumes "0 < loop_closure_distance s"
  shows
   "(3 \<le> length (poses s) \<longrightarrow>
       set (fst (detect_loop_closures s pcs draws)) =
         {(i, j, c). i < j \<and> j < length (poses s) \<and>
            vdist (pose_position (poses s ! i)) (pose_position (poses s ! j))
              \<le> loop_closure_distance s \<and>
            min_time_gap s \<le> \<bar>pose_time (poses s ! i) - pose_time (poses s ! j)\<bar> \<and>
            c = spec_confidence s pcs draws i j \<and> 0.3 < c}) \<and>
    (3 \<le> length (poses s) \<and> i < j \<and> j < length (poses s) \<and>
     pose_position (poses s ! i) = pose_position (poses s ! j) \<and>
     min_time_gap s \<le> \<bar>pose_time (poses s ! i) - pose_time (poses s ! j)\<bar> \<longrightarrow>
       (i, j, 1) \<in> set (fst (detect_loop_closures s None draws))) \<and>
    (pose_position (poses s ! k) = pose_position (poses s ! l) \<and>
     \<bar>pose_time (poses s ! k) - pose_time (poses s ! l)\<bar> < min_time_gap s \<longrightarrow>
       (k, l, c') \<notin> set (fst (detect_loop_closures s pcs draws))) \<and>
    (length (poses s) < 3 \<longrightarrow> fst (detect_loop_closures s pcs draws) = [])"
proof (intro conjI impI)
  assume "3 \<le> length (poses s)"
  with assms show "set (fst (detect_loop_closures s pcs draws)) =
         {(i, j, c). i < j \<and> j < length (poses s) \<and>
            vdist (pose_position (poses s ! i)) (pose_position (poses s ! j))
              \<le> loop_closure_distance s \<and>
            min_time_gap s \<le> \<bar>pose_time (poses s ! i) - pose_time (poses s ! j)\<bar> \<and>
            c = spec_confidence s pcs draws i j \<and> 0.3 < c}"
    by (rule detect_characterisation)
next
  assume a: "3 \<le> length (poses s) \<and> i < j \<and> j < length (poses s) \<and>
     pose_position (poses s ! i) = pose_position (poses s ! j) \<and>
     min_time_gap s \<le> \<bar>pose_time (poses s ! i) - pose_time (poses s ! j)\<bar>"
  then have c1: "spec_confidence s None draws i j = 1"
    using assms by (simp add: spec_confidence_same_place)
  have "vdist (pose_position (poses s ! i)) (pose_position (poses s ! j)) = 0"
    using a by (simp add: vdist_same)
  then show "(i, j, 1) \<in> set (fst (detect_loop_closures s None draws))"
    using a assms c1 by (simp add: detect_characterisation)
next
  assume a: "pose_position (poses s ! k) = pose_position (poses s ! l) \<and>
     \<bar>pose_time (poses s ! k) - pose_time (poses s ! l)\<bar> < min_time_gap s"
  show "(k, l, c') \<notin> set (fst (detect_loop_closures s pcs draws))"
  proof
    assume "(k, l, c') \<in> set (fst (detect_loop_closures s pcs draws))"
    then have "(k, l, c') \<in> set (loop_closure_candidate s pcs draws k l)"
      by (rule detect_edge_from_candidate)
    then show False using a by (simp add: candidate_short_gap)
  qed
next
  assume "length (poses s) < 3"
  then show "fst (detect_loop_closures s pcs draws) = []"
    by (simp add: detect_few)
qed

theorem detect_loop_closures_edges_witness:
  "0 < loop_closure_distance three_poses_one_place \<and>
   3 \<le> length (poses three_poses_one_place) \<and>
   (0, 2, 1) \<in> set (fst (detect_loop_closures three_poses_one_place None no_draws)) \<and>
   (0, 1, 1) \<notin> set (fst (detect_loop_closures three_poses_one_place None no_draws)) \<and>
   fst (detect_loop_closures (three_poses_one_place\<lparr>poses := []\<rparr>) None no_draws) = []"
  using detect_loop_closures_edges[where s = three_poses_one_place and pcs = None
      and draws = no_draws and i = 0 and j = 2 and k = 0 and l = 1 and c' = 1]
    detect_loop_closures_edges[where s = "three_poses_one_place\<lparr>poses := []\<rparr>"
      and pcs = None and draws = no_draws and i = 0 and j = 2 and k = 0 and l = 1 and c' = 1]
  by (simp add: three_poses_one_place_def vdist_def spec_confidence_def)

subsection \<open>Pose-graph optimisation\<close>

lemma take3_drop:
  assumes "n + 3 \<le> length xs"
  shows "take 3 (drop n xs) = [xs ! n, xs ! (n + 1), xs ! (n + 2)]"
proof (rule nth_equalityI)
  show "length (take 3 (drop n xs)) = length [xs ! n, xs ! (n + 1), xs ! (n + 2)]"
    using assms by simp
next
  fix i assume "i < length (take 3 (drop n xs))"
  then have "i < 3" by simp
  then consider "i = 0" | "i = 1" | "i = 2" by linarith
  then show "take 3 (drop n xs) ! i = [xs ! n, xs ! (n + 1), xs ! (n + 2)] ! i"
    using assms by cases simp_all
qed

lemma params_poses_length: "length (params_poses n params) = n"
  by (simp add: params_poses_def)

lemma params_poses_nth:
  "k < n \<Longrightarrow> params_poses n params ! k =
     (take 3 (drop (7 * k) params), take 4 (drop (7 * k + 3) params))"
  by (simp add: params_poses_def Let_def slice_def mult.commute)

lemma params_poses_pos:
  assumes "length params = 7 * n" and "k < n"
  shows "fst (params_poses n params ! k) = spec_pos params k"
proof -
  have "7 * k + 3 \<le> length params" using assms by simp
  from take3_drop[OF this] show ?thesis
    using assms(2) by (simp add: params_poses_nth spec_pos_def)
qed

lemma params_poses_quat_xyz:
  assumes "length params = 7 * n" and "k < n"
  shows "take 3 (snd (params_poses n params ! k)) = spec_quat_xyz params k"
proof -
  have "(7 * k + 3) + 3 \<le> length params" using assms by simp
  have e: "7 * k + 3 + 1 = 7 * k + 4" "7 * k + 3 + 2 = 7 * k + 5"
    by simp_all
  have "take 3 (drop (7 * k + 3) params) =
          [params ! (7 * k + 3), params ! (7 * k + 4), params ! (7 * k + 5)]"
    using take3_drop[OF \<open>(7 * k + 3) + 3 \<le> length params\<close>] unfolding e .
  then have "take 3 (take 4 (drop (7 * k + 3) params)) = spec_quat_xyz params k"
    unfolding spec_quat_xyz_def by simp
  then show ?thesis
    using assms(2) by (simp only: params_poses_nth snd_conv)
qed

lemma np_sub_same_length:
  "length a = length b \<Longrightarrow> np_sub a b = Inr (vsub a b)"
  by (simp add: np_sub_def vsub_def)

lemma vsub_length: "length a = length b \<Longrightarrow> length (vsub a b) = length a"
  by (simp add: vsub_def)

lemma odometry_edge_residual_spec:
  assumes "length params = 7 * length (poses s)"
    and "i < length (poses s)" and "j < length (poses s)"
  shows "odometry_edge_residual (poses s) (params_poses (length (poses s)) params) i j =
           Inr (spec_sequential_residual s params (i, j))"
proof -
  let ?ps = "params_poses (length (poses s)) params"
  have len3: "length (spec_pos params k) = 3" "length (spec_quat_xyz params k) = 3" for k
    by (simp_all add: spec_pos_def spec_quat_xyz_def)
  have v3: "length (vec3_list v) = 3" for v by (cases v) simp
  have p: "fst (?ps ! i) = spec_pos params i" "fst (?ps ! j) = spec_pos params j"
    using assms by (simp_all add: params_poses_pos)
  have q: "take 3 (snd (?ps ! i)) = spec_quat_xyz params i"
          "take 3 (snd (?ps ! j)) = spec_quat_xyz params j"
    using assms by (simp_all add: params_poses_quat_xyz)
  have s1: "np_sub (spec_pos params j) (spec_pos params i) =
              Inr (vsub (spec_pos params j) (spec_pos params i))"
    by (simp add: np_sub_same_length len3)
  have s2: "np_sub (vsub (spec_pos params j) (spec_pos params i))
              (vsub (vec3_list (pose_position (poses s ! j)))
                    (vec3_list (pose_position (poses s ! i)))) =
            Inr (vsub (vsub (spec_pos params j) (spec_pos params i))
              (vsub (vec3_list (pose_position (poses s ! j)))
                    (vec3_list (pose_position (poses s ! i)))))"
    by (simp add: np_sub_same_length vsub_length len3 v3)
  have s3: "np_sub (spec_quat_xyz params j) (spec_quat_xyz params i) =
              Inr (vsub (spec_quat_xyz params j) (spec_quat_xyz params i))"
    by (simp add: np_sub_same_length len3)
  have m: "map (\<lambda>x. x * 0.1) xs = map (\<lambda>x. 0.1 * x) xs" for xs :: "real list"
    by simp
  show ?thesis
    unfolding odometry_edge_residual_def Let_def params_poses_length p q
      vsub_def[symmetric] s1 s3 m spec_sequential_residual_def
    using assms(2,3) by (simp add: s2)
qed

lemma loop_edge_residual_spec:
  assumes "length params = 7 * n" and "i < n" and "j < n"
  shows "loop_edge_residual (params_poses n params) i j c =
           Inr (spec_loop_residual params (i, j, c))"
proof -
  have len3: "length (spec_pos params k) = 3" for k
    by (simp add: spec_pos_def)
  have p: "fst (params_poses n params ! i) = spec_pos params i"
          "fst (params_poses n params ! j) = spec_pos params j"
    using assms by (simp_all add: params_poses_pos)
  have s1: "np_sub (spec_pos params i) (spec_pos params j) =
              Inr (vsub (spec_pos params i) (spec_pos params j))"
    by (simp add: np_sub_same_length len3)
  have m: "map (\<lambda>x. x * c) xs = map (\<lambda>x. c * x) xs" for xs :: "real list"
    by (simp add: mult.commute)
  show ?thesis
    unfolding loop_edge_residual_def params_poses_length p s1 m spec_loop_residual_def
    using assms(2,3) by simp
qed

lemma extend_all_Inr: "extend_all (map Inr rs) = Inr (concat rs)"
  by (induction rs) simp_all

lemma extend_all_append_Inr:
  "extend_all (map Inr rs @ map Inr rs') = Inr (concat rs @ concat rs')"
  using extend_all_Inr[of "rs @ rs'"] by simp

text \<open>The graphs the program builds have all their edges in range.\<close>

lemma add_pose_edges_in_range:
  assumes "edges_in_range s"
  shows "edges_in_range (snd (add_pose s ts p q))"
  using assms
  by (fastforce simp: edges_in_range_def add_pose_def Let_def list_all_iff less_Suc_eq)

lemma fold_add_pose_edges_in_range:
  "edges_in_range s0 \<Longrightarrow>
   edges_in_range
     (fold (\<lambda>sample s. snd (add_pose s (pose_time sample) (pose_position sample)
                               (pose_quaternion sample))) odom s0)"
  by (induction odom arbitrary: s0) (simp_all add: add_pose_edges_in_range)

lemma build_pose_graph_edges_in_range: "edges_in_range (build_pose_graph odom)"
  unfolding build_pose_graph_def
  by (rule fold_add_pose_edges_in_range) (simp add: edges_in_range_def SimpleSLAM_init_def)

lemma detect_edges_in_range:
  assumes "edges_in_range s"
  shows "edges_in_range (snd (detect_loop_closures s pcs draws))"
proof (cases "length (poses s) < 3")
  case True
  with assms show ?thesis by (simp add: detect_few)
next
  case False
  then have n: "3 \<le> length (poses s)" by simp
  have new: "snd (detect_loop_closures s pcs draws) =
      s\<lparr>loop_closure_edges := fst (detect_loop_closures s pcs draws)\<rparr>"
    using False by (simp add: detect_loop_closures_def Let_def)
  have "i < length (poses s) \<and> j < length (poses s)"
    if "(i, j, c) \<in> set (fst (detect_loop_closures s pcs draws))" for i j c
  proof -
    from that[unfolded detect_mem[OF n]]
    obtain i' j' where b: "i' < length (poses s)" "j' < length (poses s)"
      and m: "(i, j, c) \<in> set (loop_closure_candidate s pcs draws i' j')"
      by blast
    from candidate_shape[OF m] b show ?thesis by simp
  qed
  then have "list_all (\<lambda>(i, j, c). i < length (poses s) \<and> j < length (poses s))
               (fst (detect_loop_closures s pcs draws))"
    by (auto simp: list_all_iff)
  then show ?thesis
    using assms unfolding new by (simp add: edges_in_range_def)
qed

text \<open>
  C2.  For a graph whose edges join existing poses (every graph made by \<open>add_pose\<close> and
  \<open>detect_loop_closures\<close> is one) and a parameter vector with seven floats per pose, the residual vector is, for each sequential edge \<open>(i, j)\<close> in order,
  the translation residual \<open>(pos_j - pos_i) - (orig_pos_j - orig_pos_i)\<close> followed by the
  difference of the quaternion \<open>x, y, z\<close> components scaled by 0.1, and then, for each
  loop-closure edge \<open>(i, j, confidence)\<close>, \<open>confidence \<cdot> (pos_i - pos_j)\<close>; no exception
  is raised.
\<close>

theorem pose_graph_residuals_spec:
  assumes "length params = 7 * length (poses s)" and "edges_in_range s"
  shows "pose_graph_residuals s params = Inr (spec_residuals s params)"
proof -
  let ?ps = "params_poses (length (poses s)) params"
  have odo: "map (\<lambda>(i, j). odometry_edge_residual (poses s) ?ps i j) (odometry_edges s) =
             map Inr (map (spec_sequential_residual s params) (odometry_edges s))"
    using assms
    by (auto simp: edges_in_range_def list_all_iff odometry_edge_residual_spec)
  have lp: "map (\<lambda>(i, j, c). loop_edge_residual ?ps i j c) (loop_closure_edges s) =
            map Inr (map (spec_loop_residual params) (loop_closure_edges s))"
    using assms
    by (auto simp: edges_in_range_def list_all_iff loop_edge_residual_spec)
  show ?thesis
    unfolding pose_graph_residuals_def Let_def odo lp extend_all_append_Inr spec_residuals_def
    by (rule refl)
qed

theorem pose_graph_residuals_spec_witness:
  "length [0, 0, 0, 0, 0, 0, 1, 2, 0, 0, 0.1, 0, 0, (1::real)] =
     7 * length (poses graph_with_loop_edge) \<and>
   edges_in_range graph_with_loop_edge \<and>
   pose_graph_residuals graph_with_loop_edge [0, 0, 0, 0, 0, 0, 1, 2, 0, 0, 0.1, 0, 0, 1] =
     Inr [1, 0, 0, 0.01, 0, 0, -1, 0, 0]"
proof -
  have h: "length [0, 0, 0, 0, 0, 0, 1, 2, 0, 0, 0.1, 0, 0, (1::real)] =
             7 * length (poses graph_with_loop_edge)"
          "edges_in_range graph_with_loop_edge"
    by (simp_all add: graph_with_loop_edge_def edges_in_range_def)
  show ?thesis
    using h pose_graph_residuals_spec[OF h]
    by (simp add: spec_residuals_def spec_sequential_residual_def spec_loop_residual_def
        spec_pos_def spec_quat_xyz_def vsub_def graph_with_loop_edge_def)
qed

lemma sum_list_squares_nonneg: "0 \<le> sum_list (map (\<lambda>x. x * x) (v :: real list))"
  by (induction v) simp_all

lemma sum_list_squares_zero:
  "sum_list (map (\<lambda>x. x * x) (v :: real list)) = 0 \<longleftrightarrow> (\<forall>x \<in> set v. x = 0)"
proof (induction v)
  case Nil
  show ?case by simp
next
  case (Cons a v)
  have "a * a + sum_list (map (\<lambda>x. x * x) v) = 0 \<longleftrightarrow>
          a * a = 0 \<and> sum_list (map (\<lambda>x. x * x) v) = 0"
    using sum_list_squares_nonneg[of v] by (intro add_nonneg_eq_0_iff) simp_all
  with Cons show ?case by simp
qed

lemma sum_list_divide_const:
  "sum_list (map (\<lambda>x. f x / c) xs) = sum_list (map f xs) / (c :: real)"
  by (induction xs) (simp_all add: add_divide_distrib)

lemma sum_list_fl: "sum_list (map Flt v) = Flt (sum_list v)"
  by (induction v) (simp_all add: zero_fl_def)

lemma np_normalize_nonzero:
  assumes "\<exists>x \<in> set q. x \<noteq> 0"
  shows "np_normalize q = map (\<lambda>x. Flt (x / np_linalg_norm q)) q"
proof -
  have "sum_list (map (\<lambda>x. x * x) q) \<noteq> 0"
    using assms by (simp add: sum_list_squares_zero)
  then have "np_linalg_norm q \<noteq> 0"
    by (simp add: np_linalg_norm_def)
  then show ?thesis by (simp add: np_normalize_def)
qed

lemma np_normalize_unit:
  assumes "\<exists>x \<in> set q. x \<noteq> 0"
  shows "fl_norm (np_normalize q) = 1"
proof -
  let ?n = "np_linalg_norm q"
  let ?S = "sum_list (map (\<lambda>x. x * x) q)"
  have S: "0 < ?S"
    using assms sum_list_squares_nonneg[of q] sum_list_squares_zero[of q]
    by (metis less_eq_real_def)
  have n2: "?n * ?n = ?S"
    using S by (simp add: np_linalg_norm_def)
  have "map (\<lambda>x. x * x) (np_normalize q) = map Flt (map (\<lambda>x. x * x / ?S) q)"
    unfolding np_normalize_nonzero[OF assms] using n2 by simp
  then have "sum_list (map (\<lambda>x. x * x) (np_normalize q)) =
               sum_list (map Flt (map (\<lambda>x. x * x / ?S) q))"
    by (rule arg_cong)
  also have "\<dots> = Flt (sum_list (map (\<lambda>x. x * x / ?S) q))"
    by (rule sum_list_fl)
  also have "sum_list (map (\<lambda>x. x * x / ?S) q) = ?S / ?S"
    by (rule sum_list_divide_const)
  finally show ?thesis
    using S by (simp add: fl_norm_def one_fl_def)
qed

lemma map_nth_upt: "map (\<lambda>i. f (xs ! i)) [0..<length xs] = map f xs"
  by (rule nth_equalityI) simp_all

lemma pose_as_returned_time: "fst (pose_as_returned p) = pose_time p"
  by (cases p) simp

lemma optimize_poses_state: "snd (optimize_poses ls s n) = s"
  by (simp add: optimize_poses_def split: sum.split)

lemma optimize_poses_times:
  "map fst (fst (optimize_poses ls s n)) = map pose_time (poses s)"
  by (simp add: optimize_poses_def Let_def comp_def pose_as_returned_time map_nth_upt
      split: sum.split)

lemma optimize_poses_length:
  "length (fst (optimize_poses ls s n)) = length (poses s)"
  using arg_cong[OF optimize_poses_times[of ls s n], of length] by simp

lemma optimize_poses_solved:
  assumes "2 \<le> length (poses s)"
    and "ls (pose_graph_residuals s) (initial_params s) (n * length (initial_params s)) = Inr r"
    and "solver_result_ok r" and "i < length (poses s)"
  shows "snd (snd (fst (optimize_poses ls s n) ! i)) =
           np_normalize (slice (ls_x r) (i * 7 + 3) (i * 7 + 7))"
  using assms by (auto simp: optimize_poses_def solver_result_ok_def Let_def)

lemma optimize_poses_fallback:
  assumes "ls (pose_graph_residuals s) (initial_params s) (n * length (initial_params s)) = Inl e
           \<or> (ls (pose_graph_residuals s) (initial_params s) (n * length (initial_params s)) = Inr r
               \<and> \<not> solver_result_ok r)"
  shows "fst (optimize_poses ls s n) = map pose_as_returned (poses s)"
  using assms by (auto simp: optimize_poses_def solver_result_ok_def)

text \<open>
  C6 (as amended).  With at least two poses \<open>optimize_poses\<close> returns as many poses as
  the graph holds, each with its original timestamp, and leaves the graph unchanged.
  When the solver returns a result, every output quaternion is the quaternion block of
  the solution divided by its norm, and has unit norm provided the block is not zero;
  when the solver raises (or the success message does), the stored poses are returned
  as they are.  Below two poses the stored poses are returned.
\<close>

theorem optimize_poses_result:
  "(2 \<le> length (poses s) \<longrightarrow>
      length (fst (optimize_poses ls s n)) = length (poses s) \<and>
      map fst (fst (optimize_poses ls s n)) = map pose_time (poses s) \<and>
      snd (optimize_poses ls s n) = s) \<and>
   (2 \<le> length (poses s) \<and>
    ls (pose_graph_residuals s) (initial_params s) (n * length (initial_params s)) = Inr r \<and>
    solver_result_ok r \<and> i < length (poses s) \<longrightarrow>
      snd (snd (fst (optimize_poses ls s n) ! i)) =
        np_normalize (slice (ls_x r) (i * 7 + 3) (i * 7 + 7)) \<and>
      ((\<exists>x \<in> set (slice (ls_x r) (i * 7 + 3) (i * 7 + 7)). x \<noteq> 0) \<longrightarrow>
         fl_norm (snd (snd (fst (optimize_poses ls s n) ! i))) = 1)) \<and>
   (2 \<le> length (poses s) \<and>
    (ls (pose_graph_residuals s) (initial_params s) (n * length (initial_params s)) = Inl e \<or>
     ls (pose_graph_residuals s) (initial_params s) (n * length (initial_params s)) = Inr r \<and>
     \<not> solver_result_ok r) \<longrightarrow>
      fst (optimize_poses ls s n) = map pose_as_returned (poses s)) \<and>
   (length (poses s) < 2 \<longrightarrow> optimize_poses ls s n = (map pose_as_returned (poses s), s))"
proof (intro conjI impI)
  show "length (fst (optimize_poses ls s n)) = length (poses s)"
    by (rule optimize_poses_length)
  show "map fst (fst (optimize_poses ls s n)) = map pose_time (poses s)"
    by (rule optimize_poses_times)
  show "snd (optimize_poses ls s n) = s"
    by (rule optimize_poses_state)
next
  assume a: "2 \<le> length (poses s) \<and>
    ls (pose_graph_residuals s) (initial_params s) (n * length (initial_params s)) = Inr r \<and>
    solver_result_ok r \<and> i < length (poses s)"
  then show q: "snd (snd (fst (optimize_poses ls s n) ! i)) =
        np_normalize (slice (ls_x r) (i * 7 + 3) (i * 7 + 7))"
    by (intro optimize_poses_solved) simp_all
  assume "\<exists>x \<in> set (slice (ls_x r) (i * 7 + 3) (i * 7 + 7)). x \<noteq> 0"
  then show "fl_norm (snd (snd (fst (optimize_poses ls s n) ! i))) = 1"
    unfolding q by (rule np_normalize_unit)
next
  assume "2 \<le> length (poses s) \<and>
    (ls (pose_graph_residuals s) (initial_params s) (n * length (initial_params s)) = Inl e \<or>
     ls (pose_graph_residuals s) (initial_params s) (n * length (initial_params s)) = Inr r \<and>
     \<not> solver_result_ok r)"
  then show "fst (optimize_poses ls s n) = map pose_as_returned (poses s)"
    using optimize_poses_fallback[of ls s n e r] by blast
next
  assume "length (poses s) < 2"
  then show "optimize_poses ls s n = (map pose_as_returned (poses s), s)"
    by (simp add: optimize_poses_def)
qed

lemma two_poses_zero_quaternion_eq:
  "two_poses_zero_quaternion =
     \<lparr> loop_closure_distance = 3, min_time_gap = 15,
       poses = [(0, (0, 0, 0), (0, 0, 0, 0)), (1, (1, 0, 0), (0, 0, 0, 0))],
       odometry_edges = [(0, 1)], loop_closure_edges = [] \<rparr>"
  by (simp add: two_poses_zero_quaternion_def build_pose_graph_def add_pose_def
      SimpleSLAM_init_def Let_def)

lemma two_poses_double_quaternion_eq:
  "two_poses_double_quaternion =
     \<lparr> loop_closure_distance = 3, min_time_gap = 15,
       poses = [(0, (0, 0, 0), (0, 0, 0, 2)), (1, (1, 0, 0), (0, 0, 0, 2))],
       odometry_edges = [(0, 1)], loop_closure_edges = [] \<rparr>"
  by (simp add: two_poses_double_quaternion_def build_pose_graph_def add_pose_def
      SimpleSLAM_init_def Let_def)

lemma residuals_zero_quaternion:
  "pose_graph_residuals two_poses_zero_quaternion (initial_params two_poses_zero_quaternion)
     = Inr [0, 0, 0, 0, 0, 0]"
  by (simp add: two_poses_zero_quaternion_eq pose_graph_residuals_def initial_params_def
      params_poses_def slice_def odometry_edge_residual_def np_sub_def Let_def
      numeral_2_eq_2)

lemma initial_params_zero_quaternion:
  "initial_params two_poses_zero_quaternion = [0, 0, 0, 0, 0, 0, 0, 1, 0, 0, 0, 0, 0, 0]"
  by (simp add: two_poses_zero_quaternion_eq initial_params_def)

text \<open>Two poses with the zero quaternion and a solver run that stops at its start: the
  first output quaternion is \<open>0/0\<close> in every component, and its norm is not 1.\<close>

theorem optimize_poses_unit_norm_counterexample:
  "snd (snd (fst (optimize_poses stationary_solver two_poses_zero_quaternion 50) ! 0)) =
     [NaN, NaN, NaN, NaN] \<and>
   fl_norm [NaN, NaN, NaN, NaN] \<noteq> 1"
proof
  let ?s = two_poses_zero_quaternion
  let ?r = "\<lparr> ls_x = initial_params ?s, ls_success = True, ls_fun = [0, 0, 0, 0, 0, 0] \<rparr>"
  have r: "stationary_solver (pose_graph_residuals ?s) (initial_params ?s)
             (50 * length (initial_params ?s)) = Inr ?r"
    by (simp add: stationary_solver_def residuals_zero_quaternion)
  have ok: "solver_result_ok ?r"
    by (simp add: solver_result_ok_def)
  have len: "2 \<le> length (poses ?s)" "0 < length (poses ?s)"
    by (simp_all add: two_poses_zero_quaternion_eq)
  have "snd (snd (fst (optimize_poses stationary_solver ?s 50) ! 0)) =
          np_normalize (slice (ls_x ?r) (0 * 7 + 3) (0 * 7 + 7))"
    using len(1) r ok len(2) by (rule optimize_poses_solved)
  also have "\<dots> = [NaN, NaN, NaN, NaN]"
    by (simp add: initial_params_zero_quaternion slice_def np_normalize_def
        np_linalg_norm_def)
  finally show "snd (snd (fst (optimize_poses stationary_solver ?s 50) ! 0)) =
     [NaN, NaN, NaN, NaN]" .
  show "fl_norm [NaN, NaN, NaN, NaN] \<noteq> 1"
    by (simp add: fl_norm_def one_fl_def)
qed

lemma residuals_double_quaternion:
  "pose_graph_residuals two_poses_double_quaternion
     (initial_params two_poses_double_quaternion) = Inr [0, 0, 0, 0, 0, 0]"
  by (simp add: two_poses_double_quaternion_eq pose_graph_residuals_def initial_params_def
      params_poses_def slice_def odometry_edge_residual_def np_sub_def Let_def
      numeral_2_eq_2)

lemma initial_params_double_quaternion:
  "initial_params two_poses_double_quaternion = [0, 0, 0, 0, 0, 0, 2, 1, 0, 0, 0, 0, 0, 2]"
  by (simp add: two_poses_double_quaternion_eq initial_params_def)

theorem optimize_poses_result_witness:
  "length (fst (optimize_poses stationary_solver two_poses_double_quaternion 50)) = 2 \<and>
   map fst (fst (optimize_poses stationary_solver two_poses_double_quaternion 50)) = [0, 1] \<and>
   snd (optimize_poses stationary_solver two_poses_double_quaternion 50) =
     two_poses_double_quaternion \<and>
   snd (snd (fst (optimize_poses stationary_solver two_poses_double_quaternion 50) ! 1)) =
     [Flt 0, Flt 0, Flt 0, Flt 1] \<and>
   fl_norm (snd (snd (fst (optimize_poses stationary_solver two_poses_double_quaternion 50) ! 1)))
     = 1 \<and>
   fst (optimize_poses failing_solver two_poses_double_quaternion 50) =
     [(0, [0, 0, 0], [Flt 0, Flt 0, Flt 0, Flt 2]), (1, [1, 0, 0], [Flt 0, Flt 0, Flt 0, Flt 2])] \<and>
   optimize_poses stationary_solver (SimpleSLAM_init None None) 50 =
     ([], SimpleSLAM_init None None)"
proof -
  let ?s = two_poses_double_quaternion
  let ?r = "\<lparr> ls_x = initial_params ?s, ls_success = True, ls_fun = [0, 0, 0, 0, 0, 0] \<rparr>"
  have r: "stationary_solver (pose_graph_residuals ?s) (initial_params ?s)
             (50 * length (initial_params ?s)) = Inr ?r"
    by (simp add: stationary_solver_def residuals_double_quaternion)
  have ok: "solver_result_ok ?r"
    by (simp add: solver_result_ok_def)
  have p: "poses ?s = [(0, (0, 0, 0), (0, 0, 0, 2)), (1, (1, 0, 0), (0, 0, 0, 2))]"
    by (simp add: two_poses_double_quaternion_eq)
  have q: "slice (ls_x ?r) (1 * 7 + 3) (1 * 7 + 7) = [0, 0, 0, 2]"
    by (simp add: initial_params_double_quaternion slice_def)
  have n: "np_normalize [0, 0, 0, 2] = [Flt 0, Flt 0, Flt 0, Flt 1]"
    by (simp add: np_normalize_def np_linalg_norm_def)
  have f: "failing_solver (pose_graph_residuals ?s) (initial_params ?s)
             (50 * length (initial_params ?s)) = Inl ValueError"
    by (simp add: failing_solver_def)
  show ?thesis
    using optimize_poses_result[where ls = stationary_solver and s = ?s and n = 50
        and r = ?r and i = 1 and e = ValueError]
      optimize_poses_result[where ls = failing_solver and s = ?s and n = 50
        and r = ?r and i = 1 and e = ValueError]
      optimize_poses_result[where ls = stationary_solver and s = "SimpleSLAM_init None None"
        and n = 50 and r = ?r and i = 1 and e = ValueError]
    unfolding r f q n
    using ok by (simp add: p SimpleSLAM_init_def fl_norm_def one_fl_def zero_fl_def)
qed

subsection \<open>Quaternion interpolation and rigid transforms\<close>

lemma upt3: "[0..<3] = [0, 1, 2]"
  by (simp add: numeral_3_eq_3)

lemma upt4: "[0..<4] = [0, 1, 2, 3]"
  by (simp add: numeral_eq_Suc)

lemma euler_matrix_product:
  "euler_matrix (Flt rx) (Flt ry) (Flt rz) =
     mat_mul (Rx (Flt rx)) (mat_mul (Ry (Flt ry)) (Rz (Flt rz)))"
  by (simp add: euler_matrix_def Rx_def Ry_def Rz_def mat_mul_def mat_col_def mat_ncols_def
      vec_dot_def upt3 fl_eval algebra_simps)

lemma slerp_via_normalized:
  assumes "normalized (normalized q1) = normalized q1"
    and "normalized (normalized q2) = normalized q2"
  shows "slerp_quaternions (normalized q1) (normalized q2) t = slerp_quaternions q1 q2 t"
  using assms by (simp add: slerp_quaternions_def normalized_def)

lemma sum_squares4_pos:
  assumes "(a, b, c, d) \<noteq> (0, 0, 0, (0::real))"
  shows "0 < a * a + b * b + c * c + d * d"
proof -
  have "a * a + b * b + c * c + d * d \<noteq> 0"
    using assms by (auto simp: add_nonneg_eq_0_iff)
  moreover have "0 \<le> a * a + b * b + c * c + d * d" by simp
  ultimately show ?thesis by linarith
qed

lemma normalized_finite:
  assumes "(a, b, c, d) \<noteq> (0, 0, 0, 0)"
  shows "normalized (Flt a, Flt b, Flt c, Flt d) =
           (Flt (a / sqrt (a * a + b * b + c * c + d * d)),
            Flt (b / sqrt (a * a + b * b + c * c + d * d)),
            Flt (c / sqrt (a * a + b * b + c * c + d * d)),
            Flt (d / sqrt (a * a + b * b + c * c + d * d)))"
  using sum_squares4_pos[OF assms] by (simp add: normalized_def qnorm_def)

lemma unit_components:
  assumes "(a, b, c, d) \<noteq> (0, 0, 0, 0)"
  defines "n \<equiv> sqrt (a * a + b * b + c * c + d * d)"
  shows "(a / n) * (a / n) + (b / n) * (b / n) + (c / n) * (c / n) + (d / n) * (d / n) = 1"
proof -
  have pos: "0 < a * a + b * b + c * c + d * d"
    using assms(1) by (rule sum_squares4_pos)
  have nn: "n * n = a * a + b * b + c * c + d * d"
    using pos by (simp add: n_def)
  have "(a / n) * (a / n) + (b / n) * (b / n) + (c / n) * (c / n) + (d / n) * (d / n) =
        (a * a + b * b + c * c + d * d) / (n * n)"
    by (simp add: add_divide_distrib)
  also have "\<dots> = 1" using pos nn by simp
  finally show ?thesis .
qed

lemma normalized_unit:
  assumes "a * a + b * b + c * c + d * d = 1"
  shows "normalized (Flt a, Flt b, Flt c, Flt d) = (Flt a, Flt b, Flt c, Flt d)"
  using assms by (simp add: normalized_def qnorm_def)

lemma slerp_nonneg_endpoints:
  assumes u: "a * a + b * b + c * c + d * d = 1" and v: "e * e + f * f + g * g + h * h = 1"
    and x: "0 \<le> a * e + b * f + c * g + d * h"
  shows "slerp_quaternions (Flt a, Flt b, Flt c, Flt d) (Flt e, Flt f, Flt g, Flt h) 0 =
           (Flt a, Flt b, Flt c, Flt d) \<and>
         slerp_quaternions (Flt a, Flt b, Flt c, Flt d) (Flt e, Flt f, Flt g, Flt h) 1 =
           (Flt e, Flt f, Flt g, Flt h)"
proof -
  let ?u = "(Flt a, Flt b, Flt c, Flt d)" and ?v = "(Flt e, Flt f, Flt g, Flt h)"
  define x where "x = a * e + b * f + c * g + d * h"
  have nu: "qdiv ?u (qnorm ?u) = ?u" and nv: "qdiv ?v (qnorm ?v) = ?v"
    using normalized_unit[OF u] normalized_unit[OF v] by (simp_all add: normalized_def)
  have qn: "qnorm ?u = Flt 1" "qnorm ?v = Flt 1"
    using u v by (simp_all add: qnorm_def)
  have dot: "qdot ?u ?v = Flt x" by (simp add: x_def)
  have x0: "\<not> x < 0" using x by (simp add: x_def)
  show ?thesis
  proof (cases "9995 / 10000 < x")
    case True
    have r0: "qadd ?u (qscale 0 (qsub ?v ?u)) = ?u"
      by (simp add: fl_eval)
    have r1: "qadd ?u (qscale 1 (qsub ?v ?u)) = ?v"
      by (simp add: fl_eval)
    show ?thesis
      unfolding slerp_quaternions_def Let_def nu nv dot
      using True x0 by (simp add: fl_eval r0 r1 qn)
  next
    case False
    then have b: "\<bar>x\<bar> \<le> 1" "- 1 < x" "x < 1" "- 1 \<le> x" "x \<le> 1" using x0 by simp_all
    have s: "sin (arccos x) \<noteq> 0"
      using b(2,3) by (rule sin_arccos_nonzero)
    have ax: "\<bar>x\<bar> = x" using x0 by simp
    have c: "cos (arccos x) = x" using b(4,5) by simp
    have g0: "qadd (qscale (Flt 1) ?u) (qscale (Flt 0) ?v) = ?u"
      by simp
    have g1: "qadd (qscale (Flt 0) ?u) (qscale (Flt 1) ?v) = ?v"
      by simp
    show ?thesis
      unfolding slerp_quaternions_def Let_def nu nv dot
      using False x0 b(1) s by (simp add: fl_eval ax c g0 g1)
  qed
qed

lemma slerp_flip:
  assumes u: "a * a + b * b + c * c + d * d = 1" and v: "e * e + f * f + g * g + h * h = 1"
    and x: "a * e + b * f + c * g + d * h < 0"
  shows "slerp_quaternions (Flt a, Flt b, Flt c, Flt d) (Flt e, Flt f, Flt g, Flt h) t =
         slerp_quaternions (Flt a, Flt b, Flt c, Flt d)
           (Flt (- e), Flt (- f), Flt (- g), Flt (- h)) t"
proof -
  let ?u = "(Flt a, Flt b, Flt c, Flt d)" and ?v = "(Flt e, Flt f, Flt g, Flt h)"
  let ?w = "(Flt (- e), Flt (- f), Flt (- g), Flt (- h))"
  define x where "x = a * e + b * f + c * g + d * h"
  have w: "(- e) * (- e) + (- f) * (- f) + (- g) * (- g) + (- h) * (- h) = 1"
    using v by simp
  have nu: "qdiv ?u (qnorm ?u) = ?u" and nv: "qdiv ?v (qnorm ?v) = ?v"
    and nw: "qdiv ?w (qnorm ?w) = ?w"
    using normalized_unit[OF u] normalized_unit[OF v] normalized_unit[OF w]
    by (simp_all add: normalized_def)
  have dot: "qdot ?u ?v = Flt x" "qdot ?u ?w = Flt (- x)"
    by (simp_all add: x_def)
  have neg: "qneg ?v = ?w" by simp
  have x0: "x < 0" "\<not> - x < 0" using x by (simp_all add: x_def)
  show ?thesis
    unfolding slerp_quaternions_def Let_def nu nv nw dot neg
    using x0 by (simp add: fl_eval)
qed

text \<open>
  C7.  For two nonzero quaternions (of finite components), \<open>slerp(q1, q2, 0)\<close> is the
  normalisation of \<open>q1\<close>, and \<open>slerp(q1, q2, 1)\<close> is the normalisation of \<open>q2\<close>, negated
  when \<open>dot(q1, q2) < 0\<close>; the statement covers the near-parallel branch and the
  closed-form branch alike.
\<close>

theorem slerp_endpoints:
  assumes "(a, b, c, d) \<noteq> (0, 0, 0, 0)" and "(e, f, g, h) \<noteq> (0, 0, 0, 0)"
  shows "slerp_quaternions (Flt a, Flt b, Flt c, Flt d) (Flt e, Flt f, Flt g, Flt h) 0 =
           normalized (Flt a, Flt b, Flt c, Flt d) \<and>
         slerp_quaternions (Flt a, Flt b, Flt c, Flt d) (Flt e, Flt f, Flt g, Flt h) 1 =
           (if qdot (Flt a, Flt b, Flt c, Flt d) (Flt e, Flt f, Flt g, Flt h) < 0
            then qneg (normalized (Flt e, Flt f, Flt g, Flt h))
            else normalized (Flt e, Flt f, Flt g, Flt h))"
proof -
  let ?q1 = "(Flt a, Flt b, Flt c, Flt d)" and ?q2 = "(Flt e, Flt f, Flt g, Flt h)"
  define n where "n = sqrt (a * a + b * b + c * c + d * d)"
  define m where "m = sqrt (e * e + f * f + g * g + h * h)"
  have npos: "0 < n" and mpos: "0 < m"
    using sum_squares4_pos[OF assms(1)] sum_squares4_pos[OF assms(2)]
    by (simp_all add: n_def m_def)
  let ?u = "(Flt (a / n), Flt (b / n), Flt (c / n), Flt (d / n))"
  let ?v = "(Flt (e / m), Flt (f / m), Flt (g / m), Flt (h / m))"
  have N1: "normalized ?q1 = ?u" and N2: "normalized ?q2 = ?v"
    using normalized_finite[OF assms(1)] normalized_finite[OF assms(2)]
    by (simp_all add: n_def m_def)
  have u: "(a / n) * (a / n) + (b / n) * (b / n) + (c / n) * (c / n) + (d / n) * (d / n) = 1"
    using unit_components[OF assms(1)] by (simp add: n_def)
  have v: "(e / m) * (e / m) + (f / m) * (f / m) + (g / m) * (g / m) + (h / m) * (h / m) = 1"
    using unit_components[OF assms(2)] by (simp add: m_def)
  have red: "slerp_quaternions ?q1 ?q2 t = slerp_quaternions ?u ?v t" for t
    using slerp_via_normalized[of ?q1 ?q2 t] normalized_unit[OF u] normalized_unit[OF v]
    by (simp add: N1 N2)
  define x where "x = a * e + b * f + c * g + d * h"
  have xs: "(a / n) * (e / m) + (b / n) * (f / m) + (c / n) * (g / m) + (d / n) * (h / m)
              = x / (n * m)"
    by (simp add: x_def add_divide_distrib)
  have sign: "x / (n * m) < 0 \<longleftrightarrow> x < 0"
  proof -
    have "0 < n * m" using npos mpos by simp
    then show ?thesis by (simp add: divide_less_0_iff not_less_iff_gr_or_eq)
  qed
  show ?thesis
  proof (cases "x < 0")
    case True
    then have neg: "(a / n) * (e / m) + (b / n) * (f / m) + (c / n) * (g / m)
                      + (d / n) * (h / m) < 0"
      using sign xs by simp
    have w: "(- (e / m)) * (- (e / m)) + (- (f / m)) * (- (f / m)) +
             (- (g / m)) * (- (g / m)) + (- (h / m)) * (- (h / m)) = 1"
      using v by simp
    have nonneg: "0 \<le> (a / n) * (- (e / m)) + (b / n) * (- (f / m)) + (c / n) * (- (g / m))
                      + (d / n) * (- (h / m))"
      using neg by simp
    have "slerp_quaternions ?u ?v t =
          slerp_quaternions ?u
            (Flt (- (e / m)), Flt (- (f / m)), Flt (- (g / m)), Flt (- (h / m))) t" for t
      using u v neg by (rule slerp_flip)
    then show ?thesis
      using slerp_nonneg_endpoints[OF u w nonneg] True[unfolded x_def]
      by (simp add: red N1 N2 fl_eval)
  next
    case False
    then have nonneg: "0 \<le> (a / n) * (e / m) + (b / n) * (f / m) + (c / n) * (g / m)
                      + (d / n) * (h / m)"
      using sign xs by simp
    show ?thesis
      using slerp_nonneg_endpoints[OF u v nonneg] False[unfolded x_def]
      by (simp add: red N1 N2 fl_eval)
  qed
qed

theorem slerp_endpoints_witness:
  "slerp_quaternions (Flt 0, Flt 0, Flt 0, Flt 2) (Flt 0, Flt 0, Flt 2, Flt 0) 0 =
     (Flt 0, Flt 0, Flt 0, Flt 1) \<and>
   slerp_quaternions (Flt 0, Flt 0, Flt 0, Flt 2) (Flt 0, Flt 0, Flt 2, Flt 0) 1 =
     (Flt 0, Flt 0, Flt 1, Flt 0) \<and>
   slerp_quaternions (Flt 0, Flt 0, Flt 0, Flt 2) (Flt 0, Flt 0, Flt 0, Flt (- 2)) 1 =
     (Flt 0, Flt 0, Flt 0, Flt 1)"
  using slerp_endpoints[of 0 0 0 2 0 0 2 0] slerp_endpoints[of 0 0 0 2 0 0 0 "- 2"]
  by (simp add: normalized_def qnorm_def fl_eval)

lemma slice_six: "slice [a, b, c, d, e, f] 3 6 = [d, e, f]"
  by (simp add: slice_def)

text \<open>
  Without an offset the result is the transform of the pose.  With an offset
  \<open>(tx, ty, tz, rx, ry, rz)\<close> it is that transform multiplied on the right by the offset
  transform, whose translation is \<open>(tx, ty, tz)\<close> and whose rotation block, the matrix
  written out in the function, is the product \<open>Rx(rx) \<cdot> Ry(ry) \<cdot> Rz(rz)\<close>.
\<close>

lemma create_transform_matrix_composition:
  "create_transform_matrix p q None = Inr (pose_transform p q) \<and>
   create_transform_matrix p q (Some [tx, ty, tz, Flt rx, Flt ry, Flt rz]) =
     Inr (mat_mul (pose_transform p q)
            (homogeneous (mat_mul (Rx (Flt rx)) (mat_mul (Ry (Flt ry)) (Rz (Flt rz))))
               [tx, ty, tz]))"
  by (simp add: create_transform_matrix_def pose_transform_def Let_def slice_six
      euler_matrix_product)

text \<open>
  C1.  The function announces the ZYX Euler rotation, \<open>Rz(rz) \<cdot> Ry(ry) \<cdot> Rx(rx)\<close>, for the
  rotation block of the offset transform, and the matrix it writes out is the product in
  the opposite order.  For the identity pose and the offset \<open>(0, 0, 0, \<pi>/2, 0, \<pi>/2)\<close> the
  function returns the first matrix below; the composition with \<open>Rz(rz) \<cdot> Ry(ry) \<cdot> Rx(rx)\<close>
  is the second one, and the two differ.
\<close>

theorem create_transform_matrix_zyx_divergence:
  "create_transform_matrix (0, 0, 0) (0, 0, 0, 1)
       (Some [0, 0, 0, Flt (pi / 2), Flt 0, Flt (pi / 2)]) =
     Inr [[Flt 0, Flt (- 1), Flt 0, Flt 0],
          [Flt 0, Flt 0, Flt (- 1), Flt 0],
          [Flt 1, Flt 0, Flt 0, Flt 0],
          [Flt 0, Flt 0, Flt 0, Flt 1]] \<and>
   mat_mul (pose_transform (0, 0, 0) (0, 0, 0, 1))
     (homogeneous
        (mat_mul (Rz (Flt (pi / 2))) (mat_mul (Ry (Flt 0)) (Rx (Flt (pi / 2)))))
        [0, 0, 0]) =
     [[Flt 0, Flt 0, Flt 1, Flt 0],
      [Flt 1, Flt 0, Flt 0, Flt 0],
      [Flt 0, Flt 1, Flt 0, Flt 0],
      [Flt 0, Flt 0, Flt 0, Flt 1]] \<and>
   create_transform_matrix (0, 0, 0) (0, 0, 0, 1)
       (Some [0, 0, 0, Flt (pi / 2), Flt 0, Flt (pi / 2)]) \<noteq>
     Inr (mat_mul (pose_transform (0, 0, 0) (0, 0, 0, 1))
            (homogeneous
               (mat_mul (Rz (Flt (pi / 2))) (mat_mul (Ry (Flt 0)) (Rx (Flt (pi / 2)))))
               [0, 0, 0]))"
  by (simp add: create_transform_matrix_def pose_transform_def Let_def slice_six
      euler_matrix_def Rx_def Ry_def Rz_def quaternion_to_rotation_matrix_def
      homogeneous_def mat_mul_def mat_col_def mat_ncols_def vec_dot_def upt3 upt4 fl_eval)

subsection \<open>Applying a transform to points\<close>

lemma mat_col_transpose:
  assumes "i < length H" and "length (H ! i) = n"
  shows "mat_col (transpose_m n H) i = H ! i"
proof -
  have "mat_col (transpose_m n H) i = map (\<lambda>j. (H ! i) ! j) [0..<n]"
    using assms(1) by (simp add: mat_col_def transpose_m_def)
  also have "\<dots> = H ! i"
    using map_nth[of "H ! i"] assms(2) by simp
  finally show ?thesis .
qed

lemma mat_ncols_transpose: "0 < n \<Longrightarrow> mat_ncols (transpose_m n H) = length H"
  by (cases n) (simp_all add: mat_ncols_def transpose_m_def mat_col_def upt_rec)

lemma homogeneous_product:
  assumes "list_all (\<lambda>row. length row = 4) H"
  shows "transpose_m (length H) (mat_mul T (transpose_m 4 H)) =
           map (\<lambda>h. map (\<lambda>row. vec_dot row h) T) H"
proof -
  have len: "\<And>i. i < length H \<Longrightarrow> length (H ! i) = 4"
    using assms by (simp add: list_all_length)
  have col: "mat_col (mat_mul T (transpose_m 4 H)) i = map (\<lambda>row. vec_dot row (H ! i)) T"
    if "i < length H" for i
  proof -
    have "mat_col (mat_mul T (transpose_m 4 H)) i =
            map (\<lambda>row. vec_dot row (mat_col (transpose_m 4 H) i)) T"
      using that by (simp add: mat_mul_def mat_ncols_transpose mat_col_def[of "map _ _"])
    then show ?thesis
      using that by (simp add: mat_col_transpose len)
  qed
  have "transpose_m (length H) (mat_mul T (transpose_m 4 H)) =
        map (\<lambda>i. map (\<lambda>row. vec_dot row (H ! i)) T) [0..<length H]"
    unfolding transpose_m_def[of "length H"] by (rule map_cong) (simp_all add: col)
  also have "\<dots> = map (\<lambda>h. map (\<lambda>row. vec_dot row h) T) H"
    by (rule map_nth_upt)
  finally show ?thesis .
qed

lemma apply_transform_error:
  "(\<exists>e. apply_transform_to_points P T = Inl e) \<longleftrightarrow> (nd_cols P \<noteq> 3 \<or> \<not> is_4x4 T)"
  by (simp add: apply_transform_to_points_def Let_def)

lemma apply_transform_error_kind:
  "apply_transform_to_points P T = Inl e \<Longrightarrow> e = ValueError"
  by (simp add: apply_transform_to_points_def Let_def split: if_splits)

lemma apply_transform_rows:
  assumes "is_ndarray2 P" and "nd_cols P = 3" and "is_4x4 T"
  shows "\<exists>w. apply_transform_to_points P T =
           Inr (w, \<lparr> nd_cols = 3, nd_rows = map (transform_point T) (nd_rows P) \<rparr>)"
proof -
  let ?H = "map (\<lambda>p. p @ [1]) (nd_rows P)"
  have "list_all (\<lambda>row. length row = 4) ?H"
    using assms(1,2) by (simp add: is_ndarray2_def list_all_iff)
  from homogeneous_product[OF this, of T]
  have "map (take 3) (transpose_m (length (nd_rows P)) (mat_mul T (transpose_m 4 ?H))) =
          map (transform_point T) (nd_rows P)"
    by (simp add: transform_point_def comp_def)
  then show ?thesis
    using assms(2,3) by (simp add: apply_transform_to_points_def Let_def)
qed

text \<open>
  C8.  \<open>apply_transform_to_points\<close> raises exactly when the points do not have three
  columns or the transform is not 4 x 4, and what it raises is \<open>ValueError\<close>.  On every
  well-shaped input it returns the N x 3 array of the homogeneous products, whatever
  warnings it printed: neither a determinant away from 1 nor NaN or Inf values in the
  result stop it or change the points it returns.
\<close>

theorem apply_transform_to_points_spec:
  "((\<exists>e. apply_transform_to_points P T = Inl e) \<longleftrightarrow> (nd_cols P \<noteq> 3 \<or> \<not> is_4x4 T)) \<and>
   (apply_transform_to_points P T = Inl e \<longrightarrow> e = ValueError) \<and>
   (is_ndarray2 P \<and> nd_cols P = 3 \<and> is_4x4 T \<longrightarrow>
      (\<exists>w. apply_transform_to_points P T =
         Inr (w, \<lparr> nd_cols = 3, nd_rows = map (transform_point T) (nd_rows P) \<rparr>)))"
  using apply_transform_error[of P T] apply_transform_error_kind[of P T e]
    apply_transform_rows[of P T]
  by blast

lemma apply_scaling:
  "apply_transform_to_points \<lparr> nd_cols = 3, nd_rows = [[1, 2, 3]] \<rparr> scaling_by_two =
     Inr ([DeterminantWarning (Flt 8)], \<lparr> nd_cols = 3, nd_rows = [[Flt 2, Flt 4, Flt 6]] \<rparr>)"
  by (simp add: apply_transform_to_points_def scaling_by_two_def is_4x4_def det3_def Let_def
      transpose_m_def mat_mul_def mat_col_def mat_ncols_def vec_dot_def upt4 fl_eval)

lemma apply_nan:
  "apply_transform_to_points \<lparr> nd_cols = 3, nd_rows = [[NaN, 0, 0]] \<rparr> eye4 =
     Inr ([NonFiniteWarning 3 0], \<lparr> nd_cols = 3, nd_rows = [[NaN, NaN, NaN]] \<rparr>)"
  by (simp add: apply_transform_to_points_def eye4_def is_4x4_def det3_def Let_def
      transpose_m_def mat_mul_def mat_col_def mat_ncols_def vec_dot_def upt4 fl_eval)

theorem apply_transform_to_points_spec_witness:
  "(\<exists>e. apply_transform_to_points \<lparr> nd_cols = 2, nd_rows = [[1, 2]] \<rparr> eye4 = Inl e) \<and>
   (\<exists>e. apply_transform_to_points \<lparr> nd_cols = 3, nd_rows = [[1, 2, 3]] \<rparr> [[1, 0], [0, 1]]
      = Inl e) \<and>
   apply_transform_to_points \<lparr> nd_cols = 3, nd_rows = [[1, 2, 3]] \<rparr> scaling_by_two =
     Inr ([DeterminantWarning (Flt 8)],
          \<lparr> nd_cols = 3, nd_rows = map (transform_point scaling_by_two) [[1, 2, 3]] \<rparr>) \<and>
   apply_transform_to_points \<lparr> nd_cols = 3, nd_rows = [[NaN, 0, 0]] \<rparr> eye4 =
     Inr ([NonFiniteWarning 3 0],
          \<lparr> nd_cols = 3, nd_rows = map (transform_point eye4) [[NaN, 0, 0]] \<rparr>)"
proof -
  let ?P = "\<lparr> nd_cols = 3, nd_rows = [[1, 2, 3]] \<rparr>"
  let ?Q = "\<lparr> nd_cols = 3, nd_rows = [[NaN, 0, 0]] \<rparr>"
  have shapes: "is_4x4 eye4" "is_4x4 scaling_by_two" "\<not> is_4x4 [[1, 0], [0, 1]]"
    "is_ndarray2 ?P" "is_ndarray2 ?Q"
    by (simp_all add: is_4x4_def is_ndarray2_def eye4_def scaling_by_two_def)
  have a: "\<exists>e. apply_transform_to_points \<lparr> nd_cols = 2, nd_rows = [[1, 2]] \<rparr> eye4 = Inl e"
    using apply_transform_to_points_spec[of "\<lparr> nd_cols = 2, nd_rows = [[1, 2]] \<rparr>" eye4]
    by simp
  have b: "\<exists>e. apply_transform_to_points ?P [[1, 0], [0, 1]] = Inl e"
    using apply_transform_to_points_spec[of ?P "[[1, 0], [0, 1]]"] shapes(3) by simp
  obtain w where w: "apply_transform_to_points ?P scaling_by_two =
      Inr (w, \<lparr> nd_cols = 3, nd_rows = map (transform_point scaling_by_two) [[1, 2, 3]] \<rparr>)"
    using apply_transform_to_points_spec[of ?P scaling_by_two] shapes(2,4) by auto
  obtain w' where w': "apply_transform_to_points ?Q eye4 =
      Inr (w', \<lparr> nd_cols = 3, nd_rows = map (transform_point eye4) [[NaN, 0, 0]] \<rparr>)"
    using apply_transform_to_points_spec[of ?Q eye4] shapes(1,5) by auto
  have "w = [DeterminantWarning (Flt 8)]" using w apply_scaling by simp
  moreover have "w' = [NonFiniteWarning 3 0]" using w' apply_nan by simp
  ultimately show ?thesis using a b w w' by simp
qed

subsection \<open>Interpolation and the transformation stage\<close>

lemma sort_example:
  "sort_key fst (zip [0, 10, 20 :: real] [y0, y1, y2 :: fl]) = [(0, y0), (10, y1), (20, y2)]"
  by simp

lemma searchsorted_examples:
  "searchsorted [0, 10, 20] 0 = 0" "searchsorted [0, 10, 20] 10 = 1"
  "searchsorted [0, 10, 20] 20 = 2"
  by (simp_all add: searchsorted_def bsearch_left.simps)

lemma interp_example:
  "interp1d_linear [0, 10, 20] [Flt a, Flt b, Flt c] 0 = Flt a"
  "interp1d_linear [0, 10, 20] [Flt a, Flt b, Flt c] 10 = Flt b"
  "interp1d_linear [0, 10, 20] [Flt a, Flt b, Flt c] 20 = Flt c"
  unfolding interp1d_linear_def sort_example Let_def
  by (simp_all add: searchsorted_examples fl_eval diff_divide_distrib)

declare det_r.simps [simp del]

lemma remove_nth_simps:
  "remove_nth 0 (x # xs) = xs"
  "remove_nth (Suc n) (x # xs) = x # remove_nth n xs"
  "remove_nth n [] = []"
  by (simp_all add: remove_nth_def)

lemma det_r_1: "det_r [[a]] = a"
  by (simp add: det_r.simps remove_nth_simps)

lemma det_r_2: "det_r [[a, b], [c, d]] = a * d - b * c"
  by (simp add: det_r.simps remove_nth_simps numeral_2_eq_2)

lemma det_r_3:
  "det_r [[a, b, c], [d, e, f], [g, h, i]] =
     a * (e * i - f * h) - b * (d * i - f * g) + c * (d * h - e * g)"
  by (simp add: det_r.simps(2)[of "[a, b, c]"] remove_nth_simps numeral_3_eq_3 det_r_2)

lemma det_r_4:
  "det_r [[a1, a2, a3, a4], [b1, b2, b3, b4], [c1, c2, c3, c4], [d1, d2, d3, d4]] =
     a1 * det_r [[b2, b3, b4], [c2, c3, c4], [d2, d3, d4]]
     - a2 * det_r [[b1, b3, b4], [c1, c3, c4], [d1, d3, d4]]
     + a3 * det_r [[b1, b2, b4], [c1, c2, c4], [d1, d2, d4]]
     - a4 * det_r [[b1, b2, b3], [c1, c2, c3], [d1, d2, d3]]"
  by (simp add: det_r.simps(2)[of "[a1, a2, a3, a4]"] remove_nth_simps numeral_eq_Suc)

lemma inv_eye4: "np_linalg_inv nf eye4 = Inr eye4"
  by (simp add: np_linalg_inv_def eye4_def fl_eval Let_def det_r_4 det_r_3 upt4
      remove_nth_simps numeral_eq_Suc)

lemma identity_quaternion_Flt: "identity_quaternion = (Flt 0, Flt 0, Flt 0, Flt 1)"
  by (simp add: identity_quaternion_def fl_eval)

lemma slerp_identity:
  "slerp_quaternions identity_quaternion identity_quaternion (Flt 1) = identity_quaternion"
  using slerp_nonneg_endpoints[of 0 0 0 1 0 0 0 1]
  by (simp add: identity_quaternion_Flt fl_eval)

lemma orientation_example:
  "interpolate_orientation [0, 10, 20]
     [identity_quaternion, identity_quaternion, identity_quaternion] 0 =
       Inr identity_quaternion"
  "interpolate_orientation [0, 10, 20]
     [identity_quaternion, identity_quaternion, identity_quaternion] 10 =
       Inr identity_quaternion"
  "interpolate_orientation [0, 10, 20]
     [identity_quaternion, identity_quaternion, identity_quaternion] 20 =
       Inr identity_quaternion"
  by (simp_all add: interpolate_orientation_def py_index_def py_last_def searchsorted_examples
      np_clip_def slerp_identity Let_def)

lemma scenario_interpolation:
  "interpolate_odometry_data [0, 10, 20] [0, 10, 20]
     [(Flt 0, Flt 0, Flt 0), (Flt 1, Flt 0, Flt 0), (Flt 2, Flt 0, Flt 0)]
     [identity_quaternion, identity_quaternion, identity_quaternion] =
   Inr (Some ([(Flt 0, Flt 0, Flt 0), (Flt 1, Flt 0, Flt 0), (Flt 2, Flt 0, Flt 0)],
              [identity_quaternion, identity_quaternion, identity_quaternion]))"
  by (simp add: interpolate_odometry_data_def interpolation_body_def Let_def
      interp_example orientation_example)

lemma create_translation:
  "create_transform_matrix (Flt x, Flt y, Flt z) identity_quaternion None =
     Inr [[Flt 1, Flt 0, Flt 0, Flt x], [Flt 0, Flt 1, Flt 0, Flt y],
          [Flt 0, Flt 0, Flt 1, Flt z], [Flt 0, Flt 0, Flt 0, Flt 1]]"
  by (simp add: create_transform_matrix_def quaternion_to_rotation_matrix_def
      identity_quaternion_Flt homogeneous_def Let_def fl_eval)

lemma eye4_Flt:
  "eye4 = [[Flt 1, Flt 0, Flt 0, Flt 0], [Flt 0, Flt 1, Flt 0, Flt 0],
           [Flt 0, Flt 0, Flt 1, Flt 0], [Flt 0, Flt 0, Flt 0, Flt 1]]"
  by (simp add: eye4_def fl_eval)

lemma eye4_times_translation:
  "mat_mul eye4 [[Flt 1, Flt 0, Flt 0, Flt x], [Flt 0, Flt 1, Flt 0, Flt y],
                 [Flt 0, Flt 0, Flt 1, Flt z], [Flt 0, Flt 0, Flt 0, Flt 1]] =
     [[Flt 1, Flt 0, Flt 0, Flt x], [Flt 0, Flt 1, Flt 0, Flt y],
      [Flt 0, Flt 0, Flt 1, Flt z], [Flt 0, Flt 0, Flt 0, Flt 1]]"
  by (simp add: eye4_Flt mat_mul_def mat_col_def mat_ncols_def vec_dot_def upt4 fl_eval)

lemma transform_origin:
  "transform_message
     (Some [[Flt 1, Flt 0, Flt 0, Flt x], [Flt 0, Flt 1, Flt 0, Flt y],
            [Flt 0, Flt 0, Flt 1, Flt z], [Flt 0, Flt 0, Flt 0, Flt 1]])
     [(Flt 0, Flt 0, Flt 0)] = Inr [(Flt x, Flt y, Flt z)]"
proof -
  let ?T = "[[Flt 1, Flt 0, Flt 0, Flt x], [Flt 0, Flt 1, Flt 0, Flt y],
             [Flt 0, Flt 0, Flt 1, Flt z], [Flt 0, Flt 0, Flt 0, Flt 1]]"
  let ?P = "points_array [(Flt 0, Flt 0, Flt 0)]"
  have "is_ndarray2 ?P" "nd_cols ?P = 3" "is_4x4 ?T"
    by (simp_all add: points_array_def is_ndarray2_def is_4x4_def)
  from apply_transform_rows[OF this]
  obtain w where "apply_transform_to_points ?P ?T =
      Inr (w, \<lparr> nd_cols = 3, nd_rows = map (transform_point ?T) (nd_rows ?P) \<rparr>)"
    by blast
  moreover have "map (transform_point ?T) (nd_rows ?P) = [[Flt x, Flt y, Flt z]]"
    by (simp add: points_array_def transform_point_def vec_dot_def fl_eval)
  ultimately show ?thesis
    by (simp add: transform_message_def row_point_def)
qed

lemmas inv_eye4_Flt = inv_eye4[unfolded eye4_Flt]

lemmas eye4_times_translation_Flt = eye4_times_translation[unfolded eye4_Flt]

lemma scenario_outputs:
  "transform_stage nf ModeGlobal (Some scenario_odometry) scenario_messages =
     Inr scenario_positions"
  "transform_stage nf ModeLocal (Some scenario_odometry) scenario_messages =
     Inr scenario_positions"
  by (simp_all add: transform_stage_def scenario_odometry_def scenario_messages_def
      scenario_positions_def prepare_transformation_def message_transform_def py_index_def
      fl_eval
      scenario_interpolation create_translation inv_eye4_Flt
      eye4_times_translation_Flt transform_origin enumerate_simps Let_def)

text \<open>
  C4 (as amended).  In the scenario the output points in mode \<open>global\<close> are the trajectory
  positions \<open>(0,0,0)\<close>, \<open>(1,0,0)\<close>, \<open>(2,0,0)\<close>; in mode \<open>local\<close>, where each scan is
  transformed by the inverse of the first scan's transform composed with its own, they
  are the same three points: the sensor origins expressed in the frame of the first scan.
\<close>

theorem end_to_end_scenario:
  "transform_stage nf ModeGlobal (Some scenario_odometry) scenario_messages =
     Inr [(Flt 0, Flt 0, Flt 0), (Flt 1, Flt 0, Flt 0), (Flt 2, Flt 0, Flt 0)] \<and>
   transform_stage nf ModeLocal (Some scenario_odometry) scenario_messages =
     Inr [(Flt 0, Flt 0, Flt 0), (Flt 1, Flt 0, Flt 0), (Flt 2, Flt 0, Flt 0)]"
  by (simp add: scenario_outputs scenario_positions_def)

text \<open>In mode \<open>local\<close> the second and third output points are not \<open>(0,0,0)\<close>.\<close>

theorem local_mode_counterexample:
  "transform_stage id ModeLocal (Some scenario_odometry) scenario_messages =
     Inr [(Flt 0, Flt 0, Flt 0), (Flt 1, Flt 0, Flt 0), (Flt 2, Flt 0, Flt 0)] \<and>
   transform_stage id ModeLocal (Some scenario_odometry) scenario_messages \<noteq>
     Inr [(Flt 0, Flt 0, Flt 0), (Flt 0, Flt 0, Flt 0), (Flt 0, Flt 0, Flt 0)]"
  by (simp add: scenario_outputs scenario_positions_def)

lemma interpolate_insufficient:
  "length odom_timestamps < 2 \<Longrightarrow>
     interpolate_odometry_data pc odom_timestamps ps qs = Inr None"
  by (simp add: interpolate_odometry_data_def)

lemma np_min_Min: "xs \<noteq> [] \<Longrightarrow> np_min xs = Inr (Min (set xs))"
proof (cases xs)
  case Nil
  assume "xs \<noteq> []"
  with Nil show ?thesis by simp
next
  case (Cons a list)
  show ?thesis unfolding Cons np_min.simps Min.set_eq_fold ..
qed

lemma np_max_Max: "xs \<noteq> [] \<Longrightarrow> np_max xs = Inr (Max (set xs))"
proof (cases xs)
  case Nil
  assume "xs \<noteq> []"
  with Nil show ?thesis by simp
next
  case (Cons a list)
  show ?thesis unfolding Cons np_max.simps Max.set_eq_fold ..
qed

lemma interpolate_no_overlap:
  assumes "2 \<le> length odom_timestamps" and "pc \<noteq> []"
    and "ranges_disjoint odom_timestamps pc"
  shows "interpolate_odometry_data pc odom_timestamps ps qs = Inr None"
proof -
  have ne: "odom_timestamps \<noteq> []" using assms(1) by auto
  have o: "Min (set odom_timestamps) \<le> Max (set odom_timestamps)"
    using ne by (simp add: Min_le_iff)
  have p: "Min (set pc) \<le> Max (set pc)"
    using assms(2) by (simp add: Min_le_iff)
  have "min (Max (set odom_timestamps)) (Max (set pc))
          \<le> max (Min (set odom_timestamps)) (Min (set pc))"
    using assms(3) o p unfolding ranges_disjoint_def by linarith
  then show ?thesis
    using assms(1)
    by (simp add: interpolate_odometry_data_def np_min_Min np_max_Max ne assms(2))
qed

lemma collect_untransformed:
  "collect (map (\<lambda>(msg_idx, points_in_message).
             bind_err (message_transform ModeNone interp reference msg_idx)
               (\<lambda>transform_matrix. transform_message transform_matrix points_in_message))
           (enumerate n batches)) = Inr batches"
proof (induction batches arbitrary: n)
  case Nil
  show ?case by simp
next
  case (Cons b batches)
  have "bind_err (message_transform ModeNone interp reference n)
          (\<lambda>transform_matrix. transform_message transform_matrix b) = Inr b"
    by (simp add: message_transform_def transform_message_def)
  then show ?case using Cons by simp
qed

lemma stage_without_transform:
  "transform_stage nf ModeNone odom messages = Inr (untransformed_points messages)"
  by (cases odom)
     (auto simp: transform_stage_def prepare_transformation_def collect_untransformed
        untransformed_points_def Let_def)

lemma stage_fallback:
  assumes "mode = ModeGlobal \<or> mode = ModeLocal"
    and "interpolate_odometry_data (map fst messages) ts ps qs = Inr None"
  shows "transform_stage nf mode (Some (ts, ps, qs)) messages =
           Inr (untransformed_points messages)"
  using assms
  by (auto simp: transform_stage_def prepare_transformation_def collect_untransformed
      untransformed_points_def Let_def)

text \<open>
  C5.  With fewer than two odometry samples, and with at least one point-cloud timestamp
  and time ranges that do not overlap, \<open>interpolate_odometry_data\<close> returns the sentinel
  and does not raise.  When it returns the sentinel in mode \<open>global\<close> or \<open>local\<close>, the
  stage does what it does in mode \<open>none\<close>: it succeeds and the points pass through
  untransformed.
\<close>

theorem interpolation_fallback:
  "(length odom_timestamps < 2 \<longrightarrow>
      interpolate_odometry_data pc odom_timestamps ps qs = Inr None) \<and>
   (2 \<le> length odom_timestamps \<and> pc \<noteq> [] \<and> ranges_disjoint odom_timestamps pc \<longrightarrow>
      interpolate_odometry_data pc odom_timestamps ps qs = Inr None) \<and>
   ((mode = ModeGlobal \<or> mode = ModeLocal) \<and>
    interpolate_odometry_data (map fst messages) odom_timestamps ps qs = Inr None \<longrightarrow>
      transform_stage nf mode (Some (odom_timestamps, ps, qs)) messages =
        Inr (untransformed_points messages) \<and>
      transform_stage nf mode (Some (odom_timestamps, ps, qs)) messages =
        transform_stage nf ModeNone (Some (odom_timestamps, ps, qs)) messages)"
  using interpolate_insufficient[of odom_timestamps pc ps qs]
    interpolate_no_overlap[of odom_timestamps pc ps qs]
    stage_fallback[of mode messages odom_timestamps ps qs nf]
    stage_without_transform[of nf "Some (odom_timestamps, ps, qs)" messages]
  by simp

theorem interpolation_fallback_witness:
  "interpolate_odometry_data [5, 6] [0] [(1, 1, 1)] [identity_quaternion] = Inr None \<and>
   interpolate_odometry_data [5, 6] [0, 1] [(1, 1, 1), (2, 2, 2)]
     [identity_quaternion, identity_quaternion] = Inr None \<and>
   transform_stage id ModeGlobal
     (Some ([0, 1], [(1, 1, 1), (2, 2, 2)], [identity_quaternion, identity_quaternion]))
     [(5, Some [(7, 8, 9)]), (6, Some [(1, 2, 3)])] = Inr [(7, 8, 9), (1, 2, 3)] \<and>
   transform_stage id ModeLocal
     (Some ([0], [(1, 1, 1)], [identity_quaternion]))
     [(5, Some [(7, 8, 9)]), (6, Some [(1, 2, 3)])] = Inr [(7, 8, 9), (1, 2, 3)]"
proof -
  have d: "ranges_disjoint [0, 1] [5, 6]"
    by (simp add: ranges_disjoint_def)
  have a: "interpolate_odometry_data [5, 6] [0] [(1, 1, 1)] [identity_quaternion] = Inr None"
    using interpolation_fallback[of "[0]" "[5, 6]" "[(1, 1, 1)]" "[identity_quaternion]"]
    by simp
  have b: "interpolate_odometry_data [5, 6] [0, 1] [(1, 1, 1), (2, 2, 2)]
             [identity_quaternion, identity_quaternion] = Inr None"
    using interpolation_fallback[of "[0, 1]" "[5, 6]" "[(1, 1, 1), (2, 2, 2)]"
        "[identity_quaternion, identity_quaternion]"] d
    by simp
  have c: "transform_stage id ModeGlobal
     (Some ([0, 1], [(1, 1, 1), (2, 2, 2)], [identity_quaternion, identity_quaternion]))
     [(5, Some [(7, 8, 9)]), (6, Some [(1, 2, 3)])] = Inr [(7, 8, 9), (1, 2, 3)]"
    using interpolation_fallback[of "[0, 1]" "[5, 6]" "[(1, 1, 1), (2, 2, 2)]"
        "[identity_quaternion, identity_quaternion]" ModeGlobal
        "[(5, Some [(7, 8, 9)]), (6, Some [(1, 2, 3)])]" id] b
    by (simp add: untransformed_points_def)
  have e: "transform_stage id ModeLocal
     (Some ([0], [(1, 1, 1)], [identity_quaternion]))
     [(5, Some [(7, 8, 9)]), (6, Some [(1, 2, 3)])] = Inr [(7, 8, 9), (1, 2, 3)]"
    using interpolation_fallback[of "[0]" "[5, 6]" "[(1, 1, 1)]" "[identity_quaternion]"
        ModeLocal "[(5, Some [(7, 8, 9)]), (6, Some [(1, 2, 3)])]" id] a
    by (simp add: untransformed_points_def)
  show ?thesis using a b c e by simp
qed

text \<open>With two odometry samples and no point-cloud timestamp the time range of the point
  cloud is empty and overlaps nothing; \<open>np.min(pc_timestamps)\<close>, which stands before the
  \<open>try\<close> block, raises \<open>ValueError\<close>, and the function does not return the sentinel.\<close>

theorem interpolation_empty_timestamps_counterexample:
  "interpolate_odometry_data [] [0, 1] [(1, 1, 1), (2, 2, 2)]
     [identity_quaternion, identity_quaternion] = Inl ValueError \<and>
   interpolate_odometry_data [] [0, 1] [(1, 1, 1), (2, 2, 2)]
     [identity_quaternion, identity_quaternion] \<noteq> Inr None"
  by (simp add: interpolate_odometry_data_def)

end
